theory Spec2Isabelle
  imports Main
begin

section \<open>Python strings\<close>

text \<open>
  A Python \<open>str\<close> is modelled as a \<open>string\<close> whose characters are the code points
  below 256. \<open>str.strip()\<close> removes the characters for which \<open>str.isspace()\<close> holds;
  in that range these are U+0009..U+000D, U+001C..U+0020, U+0085 and U+00A0.
\<close>

definition py_isspace :: "char \<Rightarrow> bool" where
  "py_isspace c =
     (let n = (of_char c :: nat)
      in (9 \<le> n \<and> n \<le> 13) \<or> (28 \<le> n \<and> n \<le> 32) \<or> n = 133 \<or> n = 160)"

definition py_strip :: "string \<Rightarrow> string" where
  "py_strip s = rev (dropWhile py_isspace (rev (dropWhile py_isspace s)))"

text \<open>Truthiness of a \<open>str\<close> or \<open>None\<close> value, and Python's \<open>a or b\<close> on such values.\<close>

definition truthy :: "string option \<Rightarrow> bool" where
  "truthy v = (case v of None \<Rightarrow> False | Some s \<Rightarrow> s \<noteq> [])"

definition py_or :: "string option \<Rightarrow> string option \<Rightarrow> string option" where
  "py_or a b = (if truthy a then a else b)"

definition squote :: char where
  "squote = CHR 0x27"

definition dquote :: char where
  "dquote = CHR 0x22"

definition newline :: char where
  "newline = CHR 0x0A"

section \<open>Statement splitting (\<open>_snowflake_sql_executor\<close>, lines 84-87)\<close>

text \<open>
  \<^verbatim>\<open>re.split(r""";(?=(?:[^'"]|'[^']*'|"[^"]*")*$)""", sql_query)\<close>

  \<open>span_end q cs\<close> is the rest of \<open>cs\<close> after \<open>[^q]*q\<close>, the body and closing quote of a
  quoted span, if there is a closing quote.
\<close>

fun span_end :: "char \<Rightarrow> string \<Rightarrow> string option" where
  "span_end q [] = None"
| "span_end q (c # cs) = (if c = q then Some cs else span_end q cs)"

lemma span_end_length: "span_end q cs = Some r \<Longrightarrow> length r < length cs"
  by (induction cs) (auto split: if_splits)

text \<open>
  \<open>lookahead cs\<close> is the lookahead \<open>(?=(?:[^'"]|'[^']*'|"[^"]*")*$)\<close> on the text \<open>cs\<close> that
  follows a semicolon. The three alternatives start with different characters and
  \<open>[^q]*\<close> cannot run over a \<open>q\<close>, so there is one way to match. \<open>$\<close> also matches before
  a final newline, which the first alternative consumes as well, so the lookahead holds
  exactly when the whole of \<open>cs\<close> is a sequence of the three alternatives.
\<close>

function lookahead :: "string \<Rightarrow> bool" where
  "lookahead [] = True"
| "lookahead (c # cs) =
     (if c = squote \<or> c = dquote
      then (case span_end c cs of None \<Rightarrow> False | Some r \<Rightarrow> lookahead r)
      else lookahead cs)"
  by pat_completeness auto
termination
  by (relation "measure length") (auto dest: span_end_length)

text \<open>
  \<open>re_split\<close>: the pieces of the text between the semicolons at which the lookahead
  holds; one piece more than there are such semicolons.
\<close>

fun re_split :: "string \<Rightarrow> string list" where
  "re_split [] = [[]]"
| "re_split (c # cs) =
     (if c = CHR '';'' \<and> lookahead cs then [] # re_split cs
      else (let r = re_split cs in (c # hd r) # tl r))"

text \<open>\<^verbatim>\<open>statements = [s.strip() for s in statements if s.strip()]\<close>\<close>

definition statements :: "string \<Rightarrow> string list" where
  "statements sql_query = filter (\<lambda>s. s \<noteq> []) (map py_strip (re_split sql_query))"

subsection \<open>The splitting rule in the specification's words\<close>

text \<open>
  The specification describes the split by a scan from the left: a quote character opens
  a span that the next quote character of the same kind closes, and a semicolon
  terminates a statement when the scan is outside every span.
\<close>

datatype qstate = Outside | InSingle | InDouble

fun qstep :: "qstate \<Rightarrow> char \<Rightarrow> qstate" where
  "qstep Outside c =
     (if c = squote then InSingle else if c = dquote then InDouble else Outside)"
| "qstep InSingle c = (if c = squote then Outside else InSingle)"
| "qstep InDouble c = (if c = dquote then Outside else InDouble)"

definition qscan :: "qstate \<Rightarrow> string \<Rightarrow> qstate" where
  "qscan st cs = foldl qstep st cs"

fun spec_split :: "qstate \<Rightarrow> string \<Rightarrow> string list" where
  "spec_split st [] = [[]]"
| "spec_split st (c # cs) =
     (if c = CHR '';'' \<and> st = Outside then [] # spec_split Outside cs
      else (let r = spec_split (qstep st c) cs in (c # hd r) # tl r))"

definition spec_statements :: "string \<Rightarrow> string list" where
  "spec_statements s = filter (\<lambda>s. s \<noteq> []) (map py_strip (spec_split Outside s))"

text \<open>A text is balanced when every quoted span it opens is closed.\<close>

definition balanced :: "string \<Rightarrow> bool" where
  "balanced s = (qscan Outside s = Outside)"

subsection \<open>The lookahead against the left-to-right scan\<close>

lemma quotes_differ: "squote \<noteq> dquote" "dquote \<noteq> squote"
  by (simp_all add: squote_def dquote_def)

lemma qscan_simps [simp]:
  "qscan st [] = st"
  "qscan st (c # cs) = qscan (qstep st c) cs"
  by (simp_all add: qscan_def)

text \<open>Each character permutes the three scan states, so a scan never merges two states.\<close>

lemma qstep_inj: "qstep s c = qstep t c \<Longrightarrow> s = t"
  by (cases s; cases t) (auto simp: quotes_differ split: if_splits)

lemma qscan_inj: "qscan s cs = qscan t cs \<Longrightarrow> s = t"
  by (induction cs arbitrary: s t) (auto dest: qstep_inj)

lemma span_end_single_Some:
  "span_end squote cs = Some r \<Longrightarrow> qscan InSingle cs = qscan Outside r"
  by (induction cs) (auto split: if_splits)

lemma span_end_single_None: "span_end squote cs = None \<Longrightarrow> qscan InSingle cs = InSingle"
  by (induction cs) (auto split: if_splits)

lemma span_end_double_Some:
  "span_end dquote cs = Some r \<Longrightarrow> qscan InDouble cs = qscan Outside r"
  by (induction cs) (auto split: if_splits)

lemma span_end_double_None: "span_end dquote cs = None \<Longrightarrow> qscan InDouble cs = InDouble"
  by (induction cs) (auto split: if_splits)

lemma lookahead_qscan: "lookahead cs = (qscan Outside cs = Outside)"
proof (induction cs rule: lookahead.induct)
  case 1
  show ?case by simp
next
  case (2 c cs)
  show ?case
  proof (cases "c = squote")
    case True
    then show ?thesis using 2
      by (cases "span_end squote cs")
         (simp_all add: span_end_single_Some span_end_single_None)
  next
    case False
    note ns = this
    show ?thesis
    proof (cases "c = dquote")
      case True
      then show ?thesis using 2 ns
        by (cases "span_end dquote cs")
           (simp_all add: span_end_double_Some span_end_double_None)
    next
      case False
      then show ?thesis using 2 ns by simp
    qed
  qed
qed

lemma semicolon_not_quote: "CHR '';'' \<noteq> squote" "CHR '';'' \<noteq> dquote"
  by (simp_all add: squote_def dquote_def)

lemma qstep_semicolon: "qstep st (CHR '';'') = st"
  by (cases st) (simp_all add: semicolon_not_quote)

lemma re_split_spec_split:
  "qscan st cs = Outside \<Longrightarrow> re_split cs = spec_split st cs"
proof (induction cs arbitrary: st)
  case Nil
  show ?case by simp
next
  case (Cons c cs)
  show ?case
  proof (cases "c = CHR '';''")
    case True
    with Cons.prems have rest: "qscan st cs = Outside"
      by (simp add: qstep_semicolon)
    have "lookahead cs = (st = Outside)"
      using rest qscan_inj [of Outside cs st] by (auto simp: lookahead_qscan)
    then show ?thesis
      using True rest Cons.IH [of st] by (auto simp: qstep_semicolon)
  next
    case False
    with Cons.prems Cons.IH [of "qstep st c"] show ?thesis by simp
  qed
qed

lemmas string_eval_defs =
  py_strip_def py_isspace_def squote_def dquote_def newline_def

text \<open>
  C1, as the specification states it, fails: in \<open>SELECT 1; SELECT 'x\<close> the semicolon is
  outside every quoted span, and the splitter does not split there, because the text
  after it holds a quote that is never closed.
\<close>

theorem statements_unclosed_quote_counterexample:
  "statements ''SELECT 1; SELECT 'x'' = [''SELECT 1; SELECT 'x'']
   \<and> spec_statements ''SELECT 1; SELECT 'x'' = [''SELECT 1'', ''SELECT 'x'']"
  by (simp add: statements_def spec_statements_def string_eval_defs)

text \<open>
  C1 (amended): for every block of SQL text in which every quoted span is closed, the
  statement splitter divides the text on the semicolons that are not inside a single- or
  double-quoted span, trims each piece, discards the empty pieces and keeps the order;
  \<open>SELECT ';' AS x; SELECT 2;\<close> splits into exactly two statements, the first with its
  quoted semicolon intact.
\<close>

theorem statements_balanced:
  "(\<forall>s. balanced s \<longrightarrow> statements s = spec_statements s)
   \<and> statements ''SELECT ';' AS x; SELECT 2;'' = [''SELECT ';' AS x'', ''SELECT 2'']"
proof
  show "\<forall>s. balanced s \<longrightarrow> statements s = spec_statements s"
    by (simp add: balanced_def statements_def spec_statements_def re_split_spec_split)
  show "statements ''SELECT ';' AS x; SELECT 2;'' = [''SELECT ';' AS x'', ''SELECT 2'']"
    by (simp add: statements_def string_eval_defs)
qed

theorem statements_balanced_witness:
  "balanced ''a 'b;c' x ; d'' \<and> statements ''a 'b;c' x ; d'' = [''a 'b;c' x'', ''d'']"
proof -
  have b: "balanced ''a 'b;c' x ; d''"
    by (simp add: balanced_def string_eval_defs)
  have "spec_statements ''a 'b;c' x ; d'' = [''a 'b;c' x'', ''d'']"
    by (simp add: spec_statements_def string_eval_defs)
  with b statements_balanced show ?thesis by simp
qed

section \<open>File directives (\<open>_process_file_directives\<close>, lines 40-59)\<close>

text \<open>
  What \<open>open(file_path, "r")\<close> followed by \<open>f.read()\<close> gives for a path: the text of the
  file, \<open>FileNotFoundError\<close>, or another exception with its text.
\<close>

datatype read_result = Content string | FileNotFoundError | ReadError string

type_synonym filesystem = "string \<Rightarrow> read_result"

text \<open>\<open>replace_directive\<close>: the replacement for a match whose second group is \<open>group2\<close>.\<close>

definition replace_directive :: "filesystem \<Rightarrow> string \<Rightarrow> string" where
  "replace_directive fs group2 =
     (let file_path = py_strip group2
      in case fs file_path of
           Content content \<Rightarrow> ''PARSE_JSON($$'' @ content @ ''$$)''
         | FileNotFoundError \<Rightarrow> ''/* FILE NOT FOUND: '' @ file_path @ '' */''
         | ReadError e \<Rightarrow> ''/* ERROR READING FILE '' @ file_path @ '': '' @ e @ '' */'')"

text \<open>
  \<^verbatim>\<open>pattern = re.compile(r"FILE\((['\"])(.*?)\1\)")\<close>

  \<open>lazy_path q cs\<close> matches \<open>(.*?)\1\)\<close> on \<open>cs\<close>, where \<open>q\<close> is the quote that group 1 has
  matched: the shortest run of characters other than a newline that is followed by \<open>q\<close>
  and a closing parenthesis. It gives group 2 and the text after the match.
\<close>

fun lazy_path :: "char \<Rightarrow> string \<Rightarrow> (string \<times> string) option" where
  "lazy_path q [] = None"
| "lazy_path q (c # cs) =
     (if c = q \<and> take 1 cs = '')'' then Some ([], drop 1 cs)
      else if c = newline then None
      else (case lazy_path q cs of None \<Rightarrow> None | Some (p, r) \<Rightarrow> Some (c # p, r)))"

definition match_directive :: "string \<Rightarrow> (string \<times> string) option" where
  "match_directive s =
     (if take 5 s = ''FILE('' then
        (case drop 5 s of
           [] \<Rightarrow> None
         | q # cs \<Rightarrow> if q = squote \<or> q = dquote then lazy_path q cs else None)
      else None)"

lemma lazy_path_length: "lazy_path q cs = Some (p, r) \<Longrightarrow> length r < length cs"
  by (induction cs arbitrary: p) (auto split: if_splits option.splits)

lemma match_directive_length:
  assumes "match_directive s = Some (p, r)"
  shows "length r < length s"
proof -
  from assms obtain q cs where d: "drop 5 s = q # cs" and l: "lazy_path q cs = Some (p, r)"
    by (auto simp: match_directive_def split: if_splits list.splits)
  from d have "length (drop 5 s) = Suc (length cs)"
    by simp
  then have "length cs < length s"
    by simp
  with lazy_path_length [OF l] show ?thesis
    by simp
qed

text \<open>
  \<open>pattern.sub(replace_directive, sql_query)\<close>: from the left, each match is replaced and
  the scan goes on after it; a character at which no match starts is copied.
\<close>

function process_file_directives :: "filesystem \<Rightarrow> string \<Rightarrow> string" where
  "process_file_directives fs [] = []"
| "process_file_directives fs (c # cs) =
     (case match_directive (c # cs) of
        Some (p, rest) \<Rightarrow> replace_directive fs p @ process_file_directives fs rest
      | None \<Rightarrow> c # process_file_directives fs cs)"
  by pat_completeness auto
termination
  by (relation "measure (\<lambda>(fs, s). length s)") (auto dest: match_directive_length)

text \<open>\<open>closes_early q p\<close>: inside \<open>p\<close> the quote \<open>q\<close> is followed by a closing parenthesis.\<close>

fun closes_early :: "char \<Rightarrow> string \<Rightarrow> bool" where
  "closes_early q [] = False"
| "closes_early q (c # cs) = ((c = q \<and> take 1 cs = '')'') \<or> closes_early q cs)"

text \<open>\<open>no_directive_start pre s\<close>: in \<open>pre @ s\<close> no match starts inside \<open>pre\<close>.\<close>

fun no_directive_start :: "string \<Rightarrow> string \<Rightarrow> bool" where
  "no_directive_start [] s = True"
| "no_directive_start (c # pre) s =
     (match_directive (c # pre @ s) = None \<and> no_directive_start pre s)"

text \<open>The files of the examples.\<close>

definition json_fs :: filesystem where
  "json_fs path = (if path = ''a.json'' then Content ''{\"k\":1}'' else FileNotFoundError)"

definition padded_fs :: filesystem where
  "padded_fs path = (if path = '' a.json'' then Content ''{}'' else FileNotFoundError)"

subsection \<open>Properties of the substitution\<close>

lemma lazy_path_exact:
  assumes "q \<noteq> CHR '')''" and "newline \<notin> set p" and "\<not> closes_early q p"
  shows "lazy_path q (p @ q # CHR '')'' # rest) = Some (p, rest)"
  using assms(2,3)
proof (induction p)
  case Nil
  show ?case by simp
next
  case (Cons c p)
  have "take 1 (p @ q # CHR '')'' # rest) = '')'' \<longleftrightarrow> take 1 p = '')''"
    using assms(1) by (cases p) auto
  with Cons show ?case by auto
qed

lemma match_directive_exact:
  assumes "q = squote \<or> q = dquote" and "newline \<notin> set p" and "\<not> closes_early q p"
  shows "match_directive (''FILE('' @ q # p @ q # CHR '')'' # rest) = Some (p, rest)"
proof -
  have "q \<noteq> CHR '')''"
    using assms(1) by (auto simp: squote_def dquote_def)
  then have "lazy_path q (p @ q # CHR '')'' # rest) = Some (p, rest)"
    using assms(2,3) by (rule lazy_path_exact)
  with assms(1) show ?thesis by (auto simp: match_directive_def)
qed

lemma process_file_directives_prefix:
  "no_directive_start pre s \<Longrightarrow>
     process_file_directives fs (pre @ s) = pre @ process_file_directives fs s"
  by (induction pre) auto

lemma process_file_directives_match:
  "match_directive s = Some (p, rest) \<Longrightarrow>
     process_file_directives fs s = replace_directive fs p @ process_file_directives fs rest"
  by (cases s) (auto simp: match_directive_def)

lemmas directive_eval_defs =
  match_directive_def replace_directive_def string_eval_defs

section \<open>The session extension (\<open>SnowflakeSqlMagics\<close>)\<close>

subsection \<open>The warehouse client library and the interactive session\<close>

text \<open>
  The connector library is outside the repository. It is a parameter of the model: a
  record of functions over a state \<open>'w\<close> of the warehouse and its connections, with
  connection handles of type \<open>'c\<close>. A call that raises gives the text of the exception.
\<close>

datatype dataframe = DataFrame (df_columns: "string list") (df_rows: "string list list")

definition df_empty :: "dataframe \<Rightarrow> bool" where
  "df_empty df = (df_columns df = [] \<or> df_rows df = [])"

datatype result = Table dataframe | Message string

datatype fetch_outcome = Fetched dataframe | NotSupportedError | FetchError string

text \<open>
  What a cursor gives after a successful \<open>cur.execute(statement)\<close>: \<open>cur.rowcount\<close>, the
  truth value of \<open>cur.description\<close>, and the outcomes of \<open>cur.fetchall()\<close>,
  \<open>cur.fetch_pandas_all()\<close> and \<open>cur.close()\<close> (\<open>Some e\<close>: raises \<open>e\<close>).
\<close>

record cursor =
  cur_rowcount :: "int option"
  cur_description :: bool
  cur_fetchall :: "string option"
  cur_fetch_pandas_all :: fetch_outcome
  cur_close :: "string option"

text \<open>
  \<open>CursorError e\<close>: \<open>self.conn.cursor()\<close> raises. \<open>ExecuteError e c\<close>: \<open>cur.execute\<close> raises
  \<open>e\<close>, and \<open>c\<close> is the outcome of \<open>cur.close()\<close> in the \<open>finally\<close> block.
\<close>

datatype execution = CursorError string | ExecuteError string "string option" | Executed cursor

type_synonym credentials =
  "string option \<times> string option \<times> string option \<times> string option \<times> string option"

record ('w, 'c) connector =
  connect :: "'w \<Rightarrow> credentials \<Rightarrow> (string + 'c) \<times> 'w"
  is_closed :: "'w \<Rightarrow> 'c \<Rightarrow> bool"
  execute :: "'w \<Rightarrow> 'c \<Rightarrow> string \<Rightarrow> execution \<times> 'w"

text \<open>
  What the session shows and what the extension asks of the library, in order:
  \<open>print\<close>, \<open>traceback.print_exc()\<close>, \<open>display\<close>, \<open>snowflake.connector.connect\<close> and
  \<open>cur.execute\<close>.
\<close>

datatype event =
  Print string | PrintExc string | Display dataframe | Connect credentials | Execute string

text \<open>
  The fields of the \<open>SnowflakeSqlMagics\<close> instance, with the state of the warehouse, the
  namespace \<open>shell.user_ns\<close> and the events so far.
\<close>

record ('w, 'c) session =
  conn :: "'c option"
  initialized :: bool
  account :: "string option"
  user :: "string option"
  role :: "string option"
  private_key_path :: "string option"
  private_key_passphrase :: "string option"
  world :: 'w
  user_ns :: "string \<rightharpoonup> result"
  trace :: "event list"

definition emit :: "event list \<Rightarrow> ('w, 'c) session \<Rightarrow> ('w, 'c) session" where
  "emit evs s = s\<lparr>trace := trace s @ evs\<rparr>"

subsection \<open>\<open>_create_connection\<close> (lines 61-75)\<close>

text \<open>The second component is \<open>Some e\<close> when the call raises \<open>e\<close>.\<close>

definition create_connection ::
  "('w, 'c) connector \<Rightarrow> ('w, 'c) session \<Rightarrow> ('w, 'c) session \<times> string option" where
  "create_connection lib s =
     (if (case conn s of None \<Rightarrow> True | Some c \<Rightarrow> is_closed lib (world s) c) then
        (let creds = (account s, user s, role s, private_key_path s, private_key_passphrase s);
             s1 = emit [Connect creds] s
         in case connect lib (world s) creds of
              (Inl e, w) \<Rightarrow> (s1\<lparr>world := w\<rparr>, Some e)
            | (Inr c, w) \<Rightarrow> (s1\<lparr>world := w, conn := Some c\<rparr>, None))
      else (s, None))"

subsection \<open>\<open>_snowflake_sql_executor\<close> (lines 77-124)\<close>

text \<open>
  \<open>str.upper()\<close> on code points below 256. The images of U+00B5 and U+00FF lie beyond
  that range; they are left as they are, which changes no comparison with the keywords
  below.
\<close>

definition py_upper_char :: "char \<Rightarrow> string" where
  "py_upper_char c =
     (case map_of (zip ''abcdefghijklmnopqrstuvwxyz'' ''ABCDEFGHIJKLMNOPQRSTUVWXYZ'') c of
        Some u \<Rightarrow> [u]
      | None \<Rightarrow>
          (let n = (of_char c :: nat)
           in if n = 223 then ''SS''
              else if 224 \<le> n \<and> n \<le> 254 \<and> n \<noteq> 247 then [char_of (n - 32)]
              else [c]))"

definition py_upper :: "string \<Rightarrow> string" where
  "py_upper s = concat (map py_upper_char s)"

text \<open>\<open>statement.strip().split(maxsplit=1)[0]\<close>; \<open>None\<close> is the \<open>IndexError\<close>.\<close>

definition first_token :: "string \<Rightarrow> string option" where
  "first_token statement =
     (let t = takeWhile (\<lambda>c. \<not> py_isspace c) (py_strip statement)
      in if t = [] then None else Some t)"

definition digit :: "nat \<Rightarrow> char" where
  "digit n = ''0123456789'' ! n"

fun show_nat :: "nat \<Rightarrow> string" where
  "show_nat n = (if n < 10 then [digit n] else show_nat (n div 10) @ [digit (n mod 10)])"

declare show_nat.simps [simp del]

definition show_rowcount :: "int option \<Rightarrow> string" where
  "show_rowcount r =
     (case r of
        None \<Rightarrow> ''None''
      | Some i \<Rightarrow> if i < 0 then ''-'' @ show_nat (nat (- i)) else show_nat (nat i))"

definition message_map :: "string \<Rightarrow> string" where
  "message_map statement_type =
     (if statement_type = ''INSERT'' then ''Number of rows inserted''
      else if statement_type = ''UPDATE'' then ''Number of rows updated''
      else if statement_type = ''DELETE'' then ''Number of rows deleted''
      else ''Number of rows affected'')"

text \<open>
  The body of the \<open>try\<close> block after \<open>cur.execute(statement)\<close>: the results it appends, or
  the exception it raises.
\<close>

definition collect_results :: "string \<Rightarrow> cursor \<Rightarrow> string + result list" where
  "collect_results statement cur =
     (case first_token statement of
        None \<Rightarrow> Inl ''list index out of range''
      | Some tok \<Rightarrow>
          (let statement_type = py_upper tok
           in if statement_type \<in> {''INSERT'', ''UPDATE'', ''DELETE'', ''MERGE''} then
                (case cur_fetchall cur of
                   Some e \<Rightarrow> Inl e
                 | None \<Rightarrow>
                     Inr [Message (message_map statement_type @ '': ''
                                   @ show_rowcount (cur_rowcount cur))])
              else if cur_description cur then
                (case cur_fetch_pandas_all cur of
                   Fetched df \<Rightarrow>
                     if \<not> df_empty df then Inr [Table df]
                     else if take 4 statement_type = ''SHOW'' then
                       Inr [Message ''Show command executed successfully, but it did not produce any results to display.'']
                     else Inr []
                 | NotSupportedError \<Rightarrow>
                     (case cur_fetchall cur of Some e \<Rightarrow> Inl e | None \<Rightarrow> Inr [])
                 | FetchError e \<Rightarrow> Inl e)
              else Inr [Message ''Statement executed successfully.'']))"

text \<open>
  One round of the loop. An exception raised by \<open>cur.close()\<close> in the \<open>finally\<close> block
  replaces the outcome of the \<open>try\<close> block. The loop runs after \<open>_create_connection\<close> has
  returned, so a session without a connection cannot reach it; the model gives Python's
  \<open>AttributeError\<close> there.
\<close>

definition finally_close :: "string option \<Rightarrow> string + 'a \<Rightarrow> string + 'a" where
  "finally_close c r = (case c of Some e \<Rightarrow> Inl e | None \<Rightarrow> r)"

definition execute_statement ::
  "('w, 'c) connector \<Rightarrow> ('w, 'c) session \<Rightarrow> string
     \<Rightarrow> ('w, 'c) session \<times> (string + result list)" where
  "execute_statement lib s statement =
     (case conn s of
        None \<Rightarrow> (s, Inl ''AttributeError'')
      | Some c \<Rightarrow>
          (case execute lib (world s) c statement of
             (CursorError e, w) \<Rightarrow> (s\<lparr>world := w\<rparr>, Inl e)
           | (ExecuteError e cl, w) \<Rightarrow>
               (emit [Execute statement] (s\<lparr>world := w\<rparr>), finally_close cl (Inl e))
           | (Executed cur, w) \<Rightarrow>
               (emit [Execute statement] (s\<lparr>world := w\<rparr>),
                finally_close (cur_close cur) (collect_results statement cur))))"

text \<open>The \<open>for\<close> loop over the statements, with the results collected so far.\<close>

fun run_statements ::
  "('w, 'c) connector \<Rightarrow> ('w, 'c) session \<Rightarrow> string list \<Rightarrow> result list
     \<Rightarrow> ('w, 'c) session \<times> (string + result list)" where
  "run_statements lib s [] results = (s, Inr results)"
| "run_statements lib s (statement # rest) results =
     (case execute_statement lib s statement of
        (s', Inl e) \<Rightarrow> (s', Inl e)
      | (s', Inr rs) \<Rightarrow> run_statements lib s' rest (results @ rs))"

definition snowflake_sql_executor ::
  "('w, 'c) connector \<Rightarrow> ('w, 'c) session \<Rightarrow> string
     \<Rightarrow> ('w, 'c) session \<times> (string + result list)" where
  "snowflake_sql_executor lib s sql_query =
     (case create_connection lib s of
        (s', Some e) \<Rightarrow> (s', Inl e)
      | (s', None) \<Rightarrow> run_statements lib s' (statements sql_query) [])"

subsection \<open>\<open>_initialize_connection\<close> (lines 142-168)\<close>

text \<open>The parsed arguments of \<open>%snowauth\<close>, and \<open>os.getenv\<close>.\<close>

record auth_args =
  arg_account :: "string option"
  arg_user :: "string option"
  arg_role :: "string option"
  arg_private_key_path :: "string option"
  arg_private_key_passphrase :: "string option"

type_synonym environ = "string \<Rightarrow> string option"

text \<open>\<^verbatim>\<open>all([self.account, self.user, self.role, self.private_key_path])\<close>\<close>

definition required_present :: "('w, 'c) session \<Rightarrow> bool" where
  "required_present s =
     (truthy (account s) \<and> truthy (user s) \<and> truthy (role s) \<and> truthy (private_key_path s))"

definition resolve_parameters ::
  "environ \<Rightarrow> auth_args \<Rightarrow> ('w, 'c) session \<Rightarrow> ('w, 'c) session" where
  "resolve_parameters env args s =
     s\<lparr>account := py_or (arg_account args) (env ''SNOWFLAKE_ACCOUNT''),
       user := py_or (arg_user args) (env ''SNOWFLAKE_USER''),
       role := py_or (arg_role args) (env ''SNOWFLAKE_ROLE''),
       private_key_path :=
         py_or (arg_private_key_path args) (env ''SNOWFLAKE_PRIVATE_KEY_PATH''),
       private_key_passphrase :=
         py_or (arg_private_key_passphrase args) (env ''SNOWFLAKE_PRIVATE_KEY_PASSPHRASE'')\<rparr>"

definition initialize_connection ::
  "('w, 'c) connector \<Rightarrow> environ \<Rightarrow> auth_args \<Rightarrow> ('w, 'c) session \<Rightarrow> ('w, 'c) session" where
  "initialize_connection lib env args s =
     (let s1 = emit [Print ''Initializing new Snowflake connection...''] s;
          s2 = resolve_parameters env args s1
      in if \<not> required_present s2 then
           emit [Print ''Error: Missing connection parameters for initialization. Provide them as arguments or environment variables.''] s2
         else
           (case create_connection lib s2 of
              (s3, None) \<Rightarrow>
                emit [Print ''Snowflake connection successful.''] (s3\<lparr>initialized := True\<rparr>)
            | (s3, Some e) \<Rightarrow>
                (emit [Print (''An error occurred in initialization: '' @ e), PrintExc e] s3)
                  \<lparr>initialized := False\<rparr>))"

subsection \<open>\<open>snowsql\<close> (lines 184-235)\<close>

text \<open>\<^verbatim>\<open>[res for res in results if isinstance(res, pd.DataFrame)]\<close>\<close>

fun dataframe_results :: "result list \<Rightarrow> dataframe list" where
  "dataframe_results [] = []"
| "dataframe_results (Table df # rs) = df # dataframe_results rs"
| "dataframe_results (Message m # rs) = dataframe_results rs"

text \<open>The three messages of the block under \<open>if var_name:\<close>, and the block.\<close>

definition warn_multiple :: "string \<Rightarrow> string" where
  "warn_multiple var_name =
     ''Warning: Multiple DataFrames returned, only the last one will be assigned to ''
     @ [squote] @ var_name @ [squote] @ ''.''"

definition stored_message :: "string \<Rightarrow> string" where
  "stored_message var_name =
     ''Result stored in DataFrame '' @ [squote] @ var_name @ [squote] @ ''.''"

definition warn_none :: "string \<Rightarrow> string" where
  "warn_none var_name =
     ''Warning: No DataFrame returned to assign to '' @ [squote] @ var_name @ [squote] @ ''.''"

definition assign_result ::
  "string \<Rightarrow> dataframe list \<Rightarrow> ('w, 'c) session \<Rightarrow> ('w, 'c) session" where
  "assign_result var_name dfs s =
     (let s1 = (if length dfs > 1 then emit [Print (warn_multiple var_name)] s else s)
      in if dfs \<noteq> [] then
           emit [Print (stored_message var_name)]
             (s1\<lparr>user_ns := (user_ns s1)(var_name \<mapsto> Table (last dfs))\<rparr>)
         else emit [Print (warn_none var_name)] s1)"

text \<open>The block under \<open>if results:\<close> and its \<open>else\<close>.\<close>

fun render :: "result \<Rightarrow> event" where
  "render (Table df) = Display df"
| "render (Message m) = Print m"

definition render_all :: "result list \<Rightarrow> event list" where
  "render_all results =
     (if results \<noteq> [] then map render results
      else [Print ''Query executed successfully, but it did not produce any results to display.''])"

text \<open>What \<open>snowsql\<close> does with the outcome of the executor: the rest of the \<open>try\<close> block, or the handler.\<close>

definition report ::
  "string \<Rightarrow> ('w, 'c) session \<times> (string + result list) \<Rightarrow> ('w, 'c) session" where
  "report var_name outcome =
     (case outcome of
        (s1, Inl e) \<Rightarrow> emit [Print (''An error occurred: '' @ e), PrintExc e] s1
      | (s1, Inr results) \<Rightarrow>
          (let s2 = (if var_name \<noteq> []
                     then assign_result var_name (dataframe_results results) s1
                     else s1)
           in emit (render_all results) s2))"

definition snowsql ::
  "('w, 'c) connector \<Rightarrow> filesystem \<Rightarrow> ('w, 'c) session \<Rightarrow> string \<Rightarrow> string
     \<Rightarrow> ('w, 'c) session" where
  "snowsql lib fs s line cell =
     (let var_name = py_strip line
      in if \<not> initialized s then
           emit [Print ''Error: Snowflake connection not initialized. Please run %snowauth first.''] s
         else
           report var_name
             (snowflake_sql_executor lib s (process_file_directives fs cell)))"

text \<open>The claim's words for a missing required value: absent or empty in both sources.\<close>

definition value_missing :: "string option \<Rightarrow> string option \<Rightarrow> bool" where
  "value_missing arg var = (\<not> truthy arg \<and> \<not> truthy var)"

definition some_required_missing :: "environ \<Rightarrow> auth_args \<Rightarrow> bool" where
  "some_required_missing env args =
     (value_missing (arg_account args) (env ''SNOWFLAKE_ACCOUNT'')
      \<or> value_missing (arg_user args) (env ''SNOWFLAKE_USER'')
      \<or> value_missing (arg_role args) (env ''SNOWFLAKE_ROLE'')
      \<or> value_missing (arg_private_key_path args) (env ''SNOWFLAKE_PRIVATE_KEY_PATH''))"

subsection \<open>A library and a session for the examples\<close>

definition demo_execute :: "unit \<Rightarrow> unit \<Rightarrow> string \<Rightarrow> execution \<times> unit" where
  "demo_execute w c statement =
     (if take 6 statement = ''INSERT'' then
        (Executed \<lparr>cur_rowcount = Some 1, cur_description = False, cur_fetchall = None,
                   cur_fetch_pandas_all = NotSupportedError, cur_close = None\<rparr>, ())
      else if take 6 statement = ''SELECT'' then
        (Executed \<lparr>cur_rowcount = Some 1, cur_description = True, cur_fetchall = None,
                   cur_fetch_pandas_all = Fetched (DataFrame [''N''] [[''1'']]),
                   cur_close = None\<rparr>, ())
      else (ExecuteError ''SQL compilation error'' None, ()))"

definition demo_lib :: "(unit, unit) connector" where
  "demo_lib =
     \<lparr>connect = (\<lambda>w creds. (Inr (), ())), is_closed = (\<lambda>w c. False), execute = demo_execute\<rparr>"

definition demo_session :: "(unit, unit) session" where
  "demo_session =
     \<lparr>conn = Some (), initialized = True, account = Some ''acct'', user = Some ''me'',
      role = Some ''analyst'', private_key_path = Some ''key.p8'',
      private_key_passphrase = None, world = (), user_ns = Map.empty, trace = []\<rparr>"

definition no_args :: auth_args where
  "no_args =
     \<lparr>arg_account = None, arg_user = None, arg_role = None, arg_private_key_path = None,
      arg_private_key_passphrase = None\<rparr>"

definition no_env :: environ where
  "no_env name = None"

subsection \<open>What the operations leave alone\<close>

lemma emit_simps [simp]:
  "trace (emit evs s) = trace s @ evs"
  "user_ns (emit evs s) = user_ns s"
  "conn (emit evs s) = conn s"
  "initialized (emit evs s) = initialized s"
  "world (emit evs s) = world s"
  "account (emit evs s) = account s"
  "user (emit evs s) = user s"
  "role (emit evs s) = role s"
  "private_key_path (emit evs s) = private_key_path s"
  "private_key_passphrase (emit evs s) = private_key_passphrase s"
  by (simp_all add: emit_def)

lemma create_connection_frame:
  assumes "create_connection lib s = (s', r)"
  shows "user_ns s' = user_ns s" and "initialized s' = initialized s"
    and "account s' = account s" and "user s' = user s" and "role s' = role s"
    and "private_key_path s' = private_key_path s"
    and "private_key_passphrase s' = private_key_passphrase s"
  using assms
  by (auto simp: create_connection_def Let_def split: if_splits prod.splits sum.splits)

lemma execute_statement_ok:
  assumes "execute_statement lib s statement = (s', Inr rs)"
  shows "trace s' = trace s @ [Execute statement]" and "user_ns s' = user_ns s"
  using assms
  by (auto simp: execute_statement_def finally_close_def
           split: option.splits prod.splits execution.splits)

lemma execute_statement_fail:
  assumes "execute_statement lib s statement = (s', Inl e)"
  shows "trace s' = trace s \<or> trace s' = trace s @ [Execute statement]"
    and "user_ns s' = user_ns s"
  using assms
  by (auto simp: execute_statement_def finally_close_def
           split: option.splits prod.splits execution.splits)

lemma run_statements_ok:
  "run_statements lib s sts acc = (s', Inr rs) \<Longrightarrow>
     trace s' = trace s @ map Execute sts \<and> user_ns s' = user_ns s"
proof (induction sts arbitrary: s acc)
  case Nil
  then show ?case by simp
next
  case (Cons st sts)
  from Cons.prems obtain s1 r1 where
    step: "execute_statement lib s st = (s1, Inr r1)"
    and rest: "run_statements lib s1 sts (acc @ r1) = (s', Inr rs)"
    by (auto split: prod.splits sum.splits)
  from Cons.IH [OF rest] execute_statement_ok [OF step] show ?case
    by simp
qed

lemma run_statements_append:
  "run_statements lib s (pre @ post) acc =
     (case run_statements lib s pre acc of
        (s', Inl e) \<Rightarrow> (s', Inl e)
      | (s', Inr rs) \<Rightarrow> run_statements lib s' post rs)"
  by (induction pre arbitrary: s acc) (auto split: prod.splits sum.splits)

lemma dataframe_results_last:
  "dataframe_results results \<noteq> [] \<Longrightarrow> Table (last (dataframe_results results)) \<in> set results"
  by (induction results rule: dataframe_results.induct) (auto split: if_splits)

lemma required_present_resolve:
  "required_present (resolve_parameters env args s) = (\<not> some_required_missing env args)"
  by (auto simp: required_present_def resolve_parameters_def some_required_missing_def
                 value_missing_def py_or_def)

lemma initialize_connection_missing:
  "some_required_missing env args \<Longrightarrow>
     initialize_connection lib env args s =
       emit [Print ''Error: Missing connection parameters for initialization. Provide them as arguments or environment variables.'']
         (resolve_parameters env args (emit [Print ''Initializing new Snowflake connection...''] s))"
  by (simp add: initialize_connection_def Let_def required_present_resolve)

lemma resolve_parameters_simps [simp]:
  "account (resolve_parameters env args s) = py_or (arg_account args) (env ''SNOWFLAKE_ACCOUNT'')"
  "user (resolve_parameters env args s) = py_or (arg_user args) (env ''SNOWFLAKE_USER'')"
  "role (resolve_parameters env args s) = py_or (arg_role args) (env ''SNOWFLAKE_ROLE'')"
  "private_key_path (resolve_parameters env args s) =
     py_or (arg_private_key_path args) (env ''SNOWFLAKE_PRIVATE_KEY_PATH'')"
  "private_key_passphrase (resolve_parameters env args s) =
     py_or (arg_private_key_passphrase args) (env ''SNOWFLAKE_PRIVATE_KEY_PASSPHRASE'')"
  "initialized (resolve_parameters env args s) = initialized s"
  "conn (resolve_parameters env args s) = conn s"
  "trace (resolve_parameters env args s) = trace s"
  "user_ns (resolve_parameters env args s) = user_ns s"
  "world (resolve_parameters env args s) = world s"
  by (simp_all add: resolve_parameters_def)

lemmas demo_defs =
  demo_lib_def demo_execute_def demo_session_def no_args_def no_env_def

lemmas executor_eval_defs =
  snowsql_def report_def snowflake_sql_executor_def create_connection_def
  execute_statement_def collect_results_def finally_close_def first_token_def
  py_upper_def py_upper_char_def message_map_def show_rowcount_def digit_def df_empty_def
  assign_result_def render_all_def emit_def statements_def

section \<open>Claims about the session extension\<close>

text \<open>
  C2, as the specification states it, fails in three ways. The path of a directive is
  stripped of surrounding whitespace before the file is opened: \<open>FILE(' a.json')\<close> is not
  replaced by the content of the file named \<open> a.json\<close>, which exists here, but by the
  comment for a missing file \<open>a.json\<close>. A path that holds a newline is no directive for
  the pattern: the text is left as it is. And the occurrences replaced are those that the
  scan from the left finds: a directive that lies inside the path of an earlier match is
  not replaced, although its file exists.
\<close>

theorem process_file_directives_counterexample:
  "padded_fs '' a.json'' = Content ''{}''
   \<and> process_file_directives padded_fs ''FILE(' a.json')'' = ''/* FILE NOT FOUND: a.json */''
   \<and> process_file_directives json_fs ''FILE('a.json\<newline>')'' = ''FILE('a.json\<newline>')''
   \<and> json_fs ''a.json'' = Content ''{\"k\":1}''
   \<and> process_file_directives json_fs ''SELECT 'FILE(' AS l, FILE('a.json')''
     = ''SELECT '/* FILE NOT FOUND: AS l, FILE('a.json */''"
  by (simp add: directive_eval_defs padded_fs_def json_fs_def)

text \<open>
  C2 (amended): in every SQL text, an occurrence of \<open>FILE('path')\<close> or \<open>FILE("path")\<close>
  whose path holds no newline and, inside it, no closing quote followed by a closing
  parenthesis, and before which no match of the directive pattern starts, is replaced,
  the text before it kept and the text after it transformed in turn; the replacement
  reads the file named by the path with surrounding whitespace stripped: its full content
  embedded as \<open>PARSE_JSON($$content$$)\<close>, for a missing file the comment with
  \<open>FILE NOT FOUND\<close> and the stripped path, for another read error the comment with the
  stripped path and the error text. \<open>FILE('a.json')\<close> with content \<open>{"k":1}\<close> becomes
  \<open>PARSE_JSON($${"k":1}$$)\<close>. The transform is applied once to the whole block before the
  block is split: an initialized \<open>snowsql\<close> whose connection is available runs the
  statements into which the transformed block splits.
\<close>

theorem process_file_directives_occurrence:
  "(\<forall>q path pre rest.
      (q = squote \<or> q = dquote) \<and> newline \<notin> set path \<and> \<not> closes_early q path
      \<and> no_directive_start pre (''FILE('' @ q # path @ q # CHR '')'' # rest)
      \<longrightarrow> process_file_directives fs (pre @ ''FILE('' @ q # path @ q # CHR '')'' # rest)
          = pre @ replace_directive fs path @ process_file_directives fs rest)
   \<and> (\<forall>path content. fs (py_strip path) = Content content
        \<longrightarrow> replace_directive fs path = ''PARSE_JSON($$'' @ content @ ''$$)'')
   \<and> (\<forall>path. fs (py_strip path) = FileNotFoundError
        \<longrightarrow> replace_directive fs path = ''/* FILE NOT FOUND: '' @ py_strip path @ '' */'')
   \<and> (\<forall>path e. fs (py_strip path) = ReadError e
        \<longrightarrow> replace_directive fs path
            = ''/* ERROR READING FILE '' @ py_strip path @ '': '' @ e @ '' */'')
   \<and> process_file_directives json_fs ''FILE('a.json')'' = ''PARSE_JSON($${\"k\":1}$$)''
   \<and> (\<forall>lib s s0 line cell. initialized s \<and> create_connection lib s = (s0, None)
        \<longrightarrow> snowsql lib fs s line cell
            = report (py_strip line)
                (run_statements lib s0 (statements (process_file_directives fs cell)) []))"
proof (intro conjI allI impI)
  fix q path pre rest
  assume h: "(q = squote \<or> q = dquote) \<and> newline \<notin> set path \<and> \<not> closes_early q path
      \<and> no_directive_start pre (''FILE('' @ q # path @ q # CHR '')'' # rest)"
  then have m: "match_directive (''FILE('' @ q # path @ q # CHR '')'' # rest) = Some (path, rest)"
    by (intro match_directive_exact) simp_all
  from h have "process_file_directives fs (pre @ ''FILE('' @ q # path @ q # CHR '')'' # rest)
      = pre @ process_file_directives fs (''FILE('' @ q # path @ q # CHR '')'' # rest)"
    by (intro process_file_directives_prefix) simp
  also have "process_file_directives fs (''FILE('' @ q # path @ q # CHR '')'' # rest)
      = replace_directive fs path @ process_file_directives fs rest"
    using m by (rule process_file_directives_match)
  finally show "process_file_directives fs (pre @ ''FILE('' @ q # path @ q # CHR '')'' # rest)
      = pre @ replace_directive fs path @ process_file_directives fs rest" .
next
  fix path content
  assume "fs (py_strip path) = Content content"
  then show "replace_directive fs path = ''PARSE_JSON($$'' @ content @ ''$$)''"
    by (simp add: replace_directive_def)
next
  fix path
  assume "fs (py_strip path) = FileNotFoundError"
  then show "replace_directive fs path = ''/* FILE NOT FOUND: '' @ py_strip path @ '' */''"
    by (simp add: replace_directive_def)
next
  fix path e
  assume "fs (py_strip path) = ReadError e"
  then show "replace_directive fs path
      = ''/* ERROR READING FILE '' @ py_strip path @ '': '' @ e @ '' */''"
    by (simp add: replace_directive_def)
next
  show "process_file_directives json_fs ''FILE('a.json')'' = ''PARSE_JSON($${\"k\":1}$$)''"
    by (simp add: directive_eval_defs json_fs_def)
next
  fix lib :: "('a, 'b) connector" and s s0 :: "('a, 'b) session" and line cell
  assume "initialized s \<and> create_connection lib s = (s0, None)"
  then show "snowsql lib fs s line cell
      = report (py_strip line)
          (run_statements lib s0 (statements (process_file_directives fs cell)) [])"
    by (simp add: snowsql_def snowflake_sql_executor_def)
qed

theorem process_file_directives_occurrence_witness:
  "process_file_directives json_fs ''SELECT FILE(\"a.json\") AS j, FILE(' b.json ') AS k''
     = ''SELECT PARSE_JSON($${\"k\":1}$$) AS j, /* FILE NOT FOUND: b.json */ AS k''
   \<and> snowsql demo_lib json_fs demo_session ''out'' ''SELECT FILE('a.json'); SELECT 2''
     = report ''out'' (run_statements demo_lib demo_session
         [''SELECT PARSE_JSON($${\"k\":1}$$)'', ''SELECT 2''] [])"
proof -
  note occ = process_file_directives_occurrence [of json_fs]
  note occ_replace = occ [THEN conjunct1, rule_format]
  note occ_content = occ [THEN conjunct2, THEN conjunct1, rule_format]
  note occ_missing = occ [THEN conjunct2, THEN conjunct2, THEN conjunct1, rule_format]
  note occ_snowsql =
    occ [THEN conjunct2, THEN conjunct2, THEN conjunct2, THEN conjunct2, THEN conjunct2,
         rule_format]
  have step1: "process_file_directives json_fs
       (''SELECT '' @ ''FILE('' @ dquote # ''a.json'' @ dquote # CHR '')''
          # '' AS j, FILE(' b.json ') AS k'')
     = ''SELECT '' @ replace_directive json_fs ''a.json''
       @ process_file_directives json_fs '' AS j, FILE(' b.json ') AS k''"
    by (rule occ_replace) (simp add: match_directive_def string_eval_defs)
  have step2: "process_file_directives json_fs
       ('' AS j, '' @ ''FILE('' @ squote # '' b.json '' @ squote # CHR '')'' # '' AS k'')
     = '' AS j, '' @ replace_directive json_fs '' b.json ''
       @ process_file_directives json_fs '' AS k''"
    by (rule occ_replace) (simp add: match_directive_def string_eval_defs)
  have found: "replace_directive json_fs ''a.json'' = ''PARSE_JSON($$'' @ ''{\"k\":1}'' @ ''$$)''"
    by (rule occ_content) (simp add: json_fs_def string_eval_defs)
  have missing: "replace_directive json_fs '' b.json ''
     = ''/* FILE NOT FOUND: '' @ py_strip '' b.json '' @ '' */''"
    by (rule occ_missing) (simp add: json_fs_def string_eval_defs)
  have tail: "process_file_directives json_fs '' AS k'' = '' AS k''"
    by (simp add: match_directive_def)
  have first: "process_file_directives json_fs ''SELECT FILE(\"a.json\") AS j, FILE(' b.json ') AS k''
     = ''SELECT PARSE_JSON($${\"k\":1}$$) AS j, /* FILE NOT FOUND: b.json */ AS k''"
    using step1 step2 found missing tail by (simp add: string_eval_defs)
  have init: "initialized demo_session \<and> create_connection demo_lib demo_session = (demo_session, None)"
    by (simp add: create_connection_def demo_defs)
  have sts: "statements (process_file_directives json_fs ''SELECT FILE('a.json'); SELECT 2'')
     = [''SELECT PARSE_JSON($${\"k\":1}$$)'', ''SELECT 2'']"
    by (simp add: statements_def directive_eval_defs json_fs_def)
  have strip: "py_strip ''out'' = ''out''"
    by (simp add: string_eval_defs)
  have raw: "snowsql demo_lib json_fs demo_session ''out'' ''SELECT FILE('a.json'); SELECT 2''
     = report (py_strip ''out'') (run_statements demo_lib demo_session
         (statements (process_file_directives json_fs ''SELECT FILE('a.json'); SELECT 2'')) [])"
    using init by (rule occ_snowsql)
  have second: "snowsql demo_lib json_fs demo_session ''out'' ''SELECT FILE('a.json'); SELECT 2''
     = report ''out'' (run_statements demo_lib demo_session
         [''SELECT PARSE_JSON($${\"k\":1}$$)'', ''SELECT 2''] [])"
    unfolding raw sts strip by (rule refl)
  from first second show ?thesis by simp
qed

text \<open>
  C3: when a block is executed and one of its statements raises while all statements
  before it succeeded, no later statement of the block is executed, one error and its
  trace are reported and nothing else is shown (the results of the earlier statements
  are not rendered), and the namespace of the session is left as it was.
\<close>

theorem snowsql_first_failure:
  assumes "initialized s"
    and "create_connection lib s = (s0, None)"
    and "statements (process_file_directives fs cell) = pre @ bad # post"
    and "run_statements lib s0 pre [] = (s1, Inr results)"
    and "execute_statement lib s1 bad = (s2, Inl e)"
  shows "snowsql lib fs s line cell = emit [Print (''An error occurred: '' @ e), PrintExc e] s2
    \<and> (trace s2 = trace s0 @ map Execute pre
       \<or> trace s2 = trace s0 @ map Execute pre @ [Execute bad])
    \<and> user_ns (snowsql lib fs s line cell) = user_ns s"
proof -
  have "run_statements lib s0 (pre @ bad # post) [] = (s2, Inl e)"
    using assms(4,5) by (simp add: run_statements_append)
  then have exec: "snowflake_sql_executor lib s (process_file_directives fs cell) = (s2, Inl e)"
    using assms(2,3) by (simp add: snowflake_sql_executor_def)
  have result: "snowsql lib fs s line cell
      = emit [Print (''An error occurred: '' @ e), PrintExc e] s2"
    using assms(1) exec by (simp add: snowsql_def report_def)
  have t1: "trace s1 = trace s0 @ map Execute pre" and n1: "user_ns s1 = user_ns s0"
    using run_statements_ok [OF assms(4)] by simp_all
  have t2: "trace s2 = trace s1 \<or> trace s2 = trace s1 @ [Execute bad]"
    and n2: "user_ns s2 = user_ns s1"
    using execute_statement_fail [OF assms(5)] by simp_all
  have n0: "user_ns s0 = user_ns s"
    using create_connection_frame(1) [OF assms(2)] .
  from result t1 t2 n0 n1 n2 show ?thesis
    by auto
qed

theorem snowsql_first_failure_witness:
  "snowsql demo_lib json_fs demo_session ''out'' ''SELECT 1; BOGUS; SELECT 2''
     = emit [Execute ''SELECT 1'', Execute ''BOGUS'',
             Print ''An error occurred: SQL compilation error'',
             PrintExc ''SQL compilation error''] demo_session"
proof -
  let ?s1 = "emit [Execute ''SELECT 1''] demo_session"
  let ?s2 = "emit [Execute ''SELECT 1'', Execute ''BOGUS''] demo_session"
  have h1: "initialized demo_session"
    by (simp add: demo_session_def)
  have h2: "create_connection demo_lib demo_session = (demo_session, None)"
    by (simp add: create_connection_def demo_defs)
  have h3: "statements (process_file_directives json_fs ''SELECT 1; BOGUS; SELECT 2'')
      = [''SELECT 1''] @ ''BOGUS'' # [''SELECT 2'']"
    by (simp add: statements_def directive_eval_defs)
  have h4: "run_statements demo_lib demo_session [''SELECT 1''] []
      = (?s1, Inr [Table (DataFrame [''N''] [[''1'']])])"
    by (simp add: executor_eval_defs demo_defs string_eval_defs)
  have h5: "execute_statement demo_lib ?s1 ''BOGUS'' = (?s2, Inl ''SQL compilation error'')"
    by (simp add: executor_eval_defs demo_defs string_eval_defs)
  from snowsql_first_failure [OF h1 h2 h3 h4 h5, of "''out''"] show ?thesis
    by (simp add: emit_def)
qed

text \<open>
  The claim's words for C6. A result is tabular when it is a table; the last tabular
  result of a list is the table after which the list holds no further table.
\<close>

fun is_table :: "result \<Rightarrow> bool" where
  "is_table (Table df) = True"
| "is_table (Message m) = False"

text \<open>A library whose \<open>SELECT\<close> returns one row holding the text selected.\<close>

definition echo_execute :: "unit \<Rightarrow> unit \<Rightarrow> string \<Rightarrow> execution \<times> unit" where
  "echo_execute w c statement =
     (if take 6 statement = ''INSERT'' then
        (Executed \<lparr>cur_rowcount = Some 1, cur_description = False, cur_fetchall = None,
                   cur_fetch_pandas_all = NotSupportedError, cur_close = None\<rparr>, ())
      else
        (Executed \<lparr>cur_rowcount = Some 1, cur_description = True, cur_fetchall = None,
                   cur_fetch_pandas_all = Fetched (DataFrame [''V''] [[drop 7 statement]]),
                   cur_close = None\<rparr>, ()))"

definition echo_lib :: "(unit, unit) connector" where
  "echo_lib =
     \<lparr>connect = (\<lambda>w creds. (Inr (), ())), is_closed = (\<lambda>w c. False), execute = echo_execute\<rparr>"

lemma dataframe_results_append:
  "dataframe_results (xs @ ys) = dataframe_results xs @ dataframe_results ys"
  by (induction xs rule: dataframe_results.induct) simp_all

lemma dataframe_results_Nil_iff:
  "dataframe_results rs = [] \<longleftrightarrow> \<not> (\<exists>r\<in>set rs. is_table r)"
  by (induction rs rule: dataframe_results.induct) simp_all

lemma executor_frame:
  assumes "snowflake_sql_executor lib s sql_query = (s1, Inr results)"
  shows "user_ns s1 = user_ns s"
proof (cases "create_connection lib s")
  case (Pair s0 r)
  show ?thesis
  proof (cases r)
    case None
    with Pair assms have "run_statements lib s0 (statements sql_query) [] = (s1, Inr results)"
      by (simp add: snowflake_sql_executor_def)
    from run_statements_ok [OF this] create_connection_frame(1) [OF Pair]
    show ?thesis by simp
  next
    case (Some e)
    with Pair assms show ?thesis
      by (simp add: snowflake_sql_executor_def)
  qed
qed

text \<open>
  C6: when an executed block was given a target-variable name and its results hold a
  table after which no further table follows, that table is bound to the name in the
  session and every other name keeps its value; when a table precedes it among the
  results, the warning that only the last one is assigned is printed first, then the
  message that the result is stored. When the results hold no table, no name is bound
  and the warning that no table was returned is printed. A message is never bound.
\<close>

theorem snowsql_binds_last_table:
  assumes "initialized s"
    and "snowflake_sql_executor lib s (process_file_directives fs cell) = (s1, Inr results)"
    and "py_strip line \<noteq> []"
  shows "(\<forall>before df after.
            results = before @ Table df # after \<and> \<not> (\<exists>r\<in>set after. is_table r) \<longrightarrow>
              user_ns (snowsql lib fs s line cell) = (user_ns s)(py_strip line \<mapsto> Table df)
              \<and> trace (snowsql lib fs s line cell)
                = trace s1
                  @ (if \<exists>r\<in>set before. is_table r
                     then [Print (''Warning: Multiple DataFrames returned, only the last one will be assigned to ''
                                  @ [squote] @ py_strip line @ [squote] @ ''.'')]
                     else [])
                  @ [Print (''Result stored in DataFrame '' @ [squote] @ py_strip line @ [squote] @ ''.'')]
                  @ map render results)
    \<and> (\<not> (\<exists>r\<in>set results. is_table r) \<longrightarrow>
          user_ns (snowsql lib fs s line cell) = user_ns s
          \<and> trace (snowsql lib fs s line cell)
            = trace s1
              @ [Print (''Warning: No DataFrame returned to assign to ''
                        @ [squote] @ py_strip line @ [squote] @ ''.'')]
              @ render_all results)"
proof (intro conjI allI impI)
  have result: "snowsql lib fs s line cell
      = emit (render_all results)
          (assign_result (py_strip line) (dataframe_results results) s1)"
    using assms by (simp add: snowsql_def report_def)
  have frame: "user_ns s1 = user_ns s"
    using assms(2) by (rule executor_frame)
  {
    fix before df after
    assume h: "results = before @ Table df # after \<and> \<not> (\<exists>r\<in>set after. is_table r)"
    then have "dataframe_results after = []"
      by (simp add: dataframe_results_Nil_iff)
    with h have dfs: "dataframe_results results = dataframe_results before @ [df]"
      by (simp add: dataframe_results_append)
    have many: "1 < length (dataframe_results results) \<longleftrightarrow> (\<exists>r\<in>set before. is_table r)"
      using dataframe_results_Nil_iff [of before] by (simp add: dfs)
    from h have ne: "results \<noteq> []"
      by simp
    show "user_ns (snowsql lib fs s line cell) = (user_ns s)(py_strip line \<mapsto> Table df)"
      unfolding result using frame by (simp add: assign_result_def dfs)
    show "trace (snowsql lib fs s line cell)
        = trace s1
          @ (if \<exists>r\<in>set before. is_table r
             then [Print (''Warning: Multiple DataFrames returned, only the last one will be assigned to ''
                          @ [squote] @ py_strip line @ [squote] @ ''.'')]
             else [])
          @ [Print (''Result stored in DataFrame '' @ [squote] @ py_strip line @ [squote] @ ''.'')]
          @ map render results"
      unfolding result using many ne
      by (simp add: assign_result_def dfs render_all_def warn_multiple_def stored_message_def)
  }
  {
    assume "\<not> (\<exists>r\<in>set results. is_table r)"
    then have none: "dataframe_results results = []"
      by (simp add: dataframe_results_Nil_iff)
    show "user_ns (snowsql lib fs s line cell) = user_ns s"
      unfolding result using frame by (simp add: assign_result_def none)
    show "trace (snowsql lib fs s line cell)
        = trace s1
          @ [Print (''Warning: No DataFrame returned to assign to ''
                    @ [squote] @ py_strip line @ [squote] @ ''.'')]
          @ render_all results"
      unfolding result by (simp add: assign_result_def none warn_none_def)
  }
qed

theorem snowsql_binds_last_table_witness:
  "user_ns (snowsql echo_lib json_fs demo_session ''out''
              ''SELECT 1; INSERT INTO t VALUES (1); SELECT 2; INSERT INTO t VALUES (2)'')
     = [''out'' \<mapsto> Table (DataFrame [''V''] [[''2'']])]
   \<and> trace (snowsql echo_lib json_fs demo_session ''out''
              ''SELECT 1; INSERT INTO t VALUES (1); SELECT 2; INSERT INTO t VALUES (2)'')
     = [Execute ''SELECT 1'', Execute ''INSERT INTO t VALUES (1)'', Execute ''SELECT 2'',
        Execute ''INSERT INTO t VALUES (2)'',
        Print ''Warning: Multiple DataFrames returned, only the last one will be assigned to 'out'.'',
        Print ''Result stored in DataFrame 'out'.'',
        Display (DataFrame [''V''] [[''1'']]), Print ''Number of rows inserted: 1'',
        Display (DataFrame [''V''] [[''2'']]), Print ''Number of rows inserted: 1'']
   \<and> user_ns (snowsql echo_lib json_fs demo_session ''out'' ''INSERT INTO t VALUES (1)'')
     = Map.empty
   \<and> trace (snowsql echo_lib json_fs demo_session ''out'' ''INSERT INTO t VALUES (1)'')
     = [Execute ''INSERT INTO t VALUES (1)'',
        Print ''Warning: No DataFrame returned to assign to 'out'.'',
        Print ''Number of rows inserted: 1'']"
proof -
  let ?cell = "''SELECT 1; INSERT INTO t VALUES (1); SELECT 2; INSERT INTO t VALUES (2)''"
  let ?s1 = "emit [Execute ''SELECT 1'', Execute ''INSERT INTO t VALUES (1)'',
                   Execute ''SELECT 2'', Execute ''INSERT INTO t VALUES (2)''] demo_session"
  let ?before = "[Table (DataFrame [''V''] [[''1'']]), Message ''Number of rows inserted: 1'']"
  let ?after = "[Message ''Number of rows inserted: 1'']"
  let ?results = "?before @ Table (DataFrame [''V''] [[''2'']]) # ?after"
  let ?t1 = "emit [Execute ''INSERT INTO t VALUES (1)''] demo_session"
  have init: "initialized demo_session"
    by (simp add: demo_session_def)
  have strip: "py_strip ''out'' = ''out''"
    by (simp add: string_eval_defs)
  have name: "py_strip ''out'' \<noteq> []"
    by (simp add: string_eval_defs)
  have exec: "snowflake_sql_executor echo_lib demo_session
        (process_file_directives json_fs ?cell) = (?s1, Inr ?results)"
    by (simp add: executor_eval_defs echo_lib_def echo_execute_def demo_session_def
                  directive_eval_defs show_nat.simps)
  have exec_none: "snowflake_sql_executor echo_lib demo_session
        (process_file_directives json_fs ''INSERT INTO t VALUES (1)'')
      = (?t1, Inr ?after)"
    by (simp add: executor_eval_defs echo_lib_def echo_execute_def demo_session_def
                  directive_eval_defs show_nat.simps)
  have shape: "?results = ?before @ Table (DataFrame [''V''] [[''2'']]) # ?after
      \<and> \<not> (\<exists>r\<in>set ?after. is_table r)"
    by simp
  have no_table: "\<not> (\<exists>r\<in>set ?after. is_table r)"
    by simp
  note last_table =
    snowsql_binds_last_table [OF init exec name, THEN conjunct1, rule_format, OF shape]
  note none =
    snowsql_binds_last_table [OF init exec_none name, THEN conjunct2, rule_format, OF no_table]
  from last_table none show ?thesis
    by (simp add: strip squote_def render_all_def emit_def demo_session_def)
qed

text \<open>
  C5 is stated for every invocation, and the code breaks it for an extension that is
  already initialized: with no value in the arguments or the environment the command
  reports the error and attempts no connection, but the extension stays initialized.
\<close>

theorem initialize_connection_missing_keeps_initialized:
  "some_required_missing no_env no_args
   \<and> initialized demo_session
   \<and> initialized (initialize_connection demo_lib no_env no_args demo_session)
   \<and> trace (initialize_connection demo_lib no_env no_args demo_session)
     = [Print ''Initializing new Snowflake connection...'',
        Print ''Error: Missing connection parameters for initialization. Provide them as arguments or environment variables.'']"
proof -
  have m: "some_required_missing no_env no_args"
    by (simp add: some_required_missing_def value_missing_def truthy_def no_env_def no_args_def)
  show ?thesis
    using m by (simp add: initialize_connection_missing demo_session_def)
qed

text \<open>
  C10: every call of the authenticate command stores the newly resolved values of the
  five connection parameters; a call in which a required value is missing reports the
  error, attempts no connection and leaves the initialized flag and the connection as
  they were. So after a successful authentication, a failed one leaves the extension
  initialized with the new, incomplete parameters.
\<close>

theorem initialize_connection_overwrites_parameters:
  "account (initialize_connection lib env args s)
     = py_or (arg_account args) (env ''SNOWFLAKE_ACCOUNT'')
   \<and> user (initialize_connection lib env args s)
     = py_or (arg_user args) (env ''SNOWFLAKE_USER'')
   \<and> role (initialize_connection lib env args s)
     = py_or (arg_role args) (env ''SNOWFLAKE_ROLE'')
   \<and> private_key_path (initialize_connection lib env args s)
     = py_or (arg_private_key_path args) (env ''SNOWFLAKE_PRIVATE_KEY_PATH'')
   \<and> private_key_passphrase (initialize_connection lib env args s)
     = py_or (arg_private_key_passphrase args) (env ''SNOWFLAKE_PRIVATE_KEY_PASSPHRASE'')
   \<and> (some_required_missing env args \<longrightarrow>
        initialized (initialize_connection lib env args s) = initialized s
        \<and> conn (initialize_connection lib env args s) = conn s
        \<and> trace (initialize_connection lib env args s)
          = trace s @ [Print ''Initializing new Snowflake connection...'',
                       Print ''Error: Missing connection parameters for initialization. Provide them as arguments or environment variables.''])"
proof (cases "some_required_missing env args")
  case True
  then show ?thesis
    by (simp add: initialize_connection_missing)
next
  case False
  let ?s2 = "resolve_parameters env args (emit [Print ''Initializing new Snowflake connection...''] s)"
  obtain s3 r where cc: "create_connection lib ?s2 = (s3, r)"
    by (cases "create_connection lib ?s2")
  note fr = create_connection_frame [OF cc]
  from False have rp: "required_present ?s2"
    by (simp add: required_present_resolve)
  show ?thesis
    using False rp cc fr
    by (cases r) (simp_all add: initialize_connection_def Let_def)
qed

theorem initialize_connection_overwrites_parameters_witness:
  "some_required_missing no_env no_args
   \<and> account demo_session = Some ''acct''
   \<and> account (initialize_connection demo_lib no_env no_args demo_session) = None
   \<and> initialized (initialize_connection demo_lib no_env no_args demo_session)"
proof -
  have m: "some_required_missing no_env no_args"
    by (simp add: some_required_missing_def value_missing_def truthy_def no_env_def no_args_def)
  from m initialize_connection_overwrites_parameters [of demo_lib no_env no_args demo_session]
  show ?thesis
    by (simp add: demo_session_def py_or_def truthy_def no_env_def no_args_def)
qed
section \<open>The notebook converter (\<open>convert_snowflake_notebook.py\<close>)\<close>

subsection \<open>Documents\<close>

text \<open>
  What \<open>json.load\<close> returns: \<open>None\<close>, a \<open>bool\<close>, a number, a \<open>str\<close>, a \<open>list\<close> or a \<open>dict\<close>.
  The converter never looks at a number, so numbers are of any type \<open>'n\<close>. A \<open>dict\<close> is its
  items in insertion order; \<open>d.get(k)\<close> is \<open>map_of d k\<close> and \<open>d[k] = v\<close> is \<open>dict_set d k v\<close>:
  the value of an existing key is replaced where it stands, a new key goes to the end.
\<close>

datatype 'n json =
    JNull
  | JBool bool
  | JNum 'n
  | JStr string
  | JArr "'n json list"
  | JObj "(string \<times> 'n json) list"

fun dict_set :: "(string \<times> 'v) list \<Rightarrow> string \<Rightarrow> 'v \<Rightarrow> (string \<times> 'v) list" where
  "dict_set [] k v = [(k, v)]"
| "dict_set ((k', v') # d) k v =
     (if k' = k then (k, v) # d else (k', v') # dict_set d k v)"

text \<open>The exceptions that the body of \<open>convert_notebook\<close> can raise outside its \<open>try\<close> blocks.\<close>

datatype exn = AttributeError | TypeError | Uncaught string

subsection \<open>The cells added (lines 36-84)\<close>

text \<open>\<open>sep.join(lines)\<close>\<close>

fun py_join :: "string \<Rightarrow> string list \<Rightarrow> string" where
  "py_join sep [] = []"
| "py_join sep [l] = l"
| "py_join sep (l # ls) = l @ sep @ py_join sep ls"

text \<open>\<open>uuid i\<close> is the text of the \<open>i\<close>-th identifier that \<open>uuid.uuid4()\<close> gives in the call.\<close>

definition new_cells_at_beginning :: "(nat \<Rightarrow> string) \<Rightarrow> 'n json list" where
  "new_cells_at_beginning uuid =
     [JObj [(''cell_type'', JStr ''markdown''),
            (''id'', JStr (uuid 0)),
            (''source'', JStr ''# Prepare python environment\<newline>Create a python virtual environment and install `ipykernel` package before running the notebook'')],
      JObj [(''cell_type'', JStr ''code''),
            (''id'', JStr (uuid 1)),
            (''metadata'', JObj [(''language'', JStr ''python'')]),
            (''source'', JStr ''%%capture pip_install_output\<newline>%pip install streamlit ipython'')],
      JObj [(''cell_type'', JStr ''markdown''),
            (''id'', JStr (uuid 2)),
            (''source'', JStr ''Install snowflake sql magics extension and configure it to connect to your Snowflake account'')],
      JObj [(''cell_type'', JStr ''code''),
            (''id'', JStr (uuid 3)),
            (''metadata'', JObj [(''language'', JStr ''python'')]),
            (''source'', JStr (py_join [newline]
               [''%reload_ext snowflake_sql_magics'',
                ''SNOWFLAKE_ACCOUNT = '<YOUR SNOWFLAKE ACCOUNT NAME>'' @ [squote],
                ''SNOWFLAKE_USER = '<YOUR SNOWFLAKE USER NAME>'' @ [squote],
                ''SNOWFLAKE_ROLE = '<SNOWFLAKE ROLE YOU WANT TO USE>'' @ [squote],
                ''SNOWFLAKE_PRIVATE_KEY_PATH = '<PATH TO YOUR PRIVATE KEY FILE FOR KEY-PAIR AUTHENTICATION>'' @ [squote],
                ''%snowauth --account $SNOWFLAKE_ACCOUNT --user $SNOWFLAKE_USER --role $SNOWFLAKE_ROLE --private_key_path $SNOWFLAKE_PRIVATE_KEY_PATH'']))],
      JObj [(''cell_type'', JStr ''markdown''),
            (''id'', JStr (uuid 4)),
            (''source'', JStr ''## Test the connection'')],
      JObj [(''cell_type'', JStr ''code''),
            (''id'', JStr (uuid 5)),
            (''metadata'', JObj [(''language'', JStr ''python'')]),
            (''source'', JStr (py_join [newline]
               [''%%snowsql test_connection'',
                ''SELECT CURRENT_USER(), CURRENT_ROLE(), CURRENT_VERSION();'']))]]"

subsection \<open>The loop over the cells (lines 89-103)\<close>

text \<open>
  One round of the loop, on one cell. \<open>cell.get\<close> and \<open>metadata.get\<close> raise
  \<open>AttributeError\<close> on a value that is no \<open>dict\<close>. The default \<open>{}\<close> of a missing
  \<open>metadata\<close> holds no language, so the cell is left as it is. The assignments change the
  \<open>metadata\<close> and the \<open>source\<close> of the cell where they stand; a missing \<open>source\<close> is taken
  as \<open>[]\<close> and added to the cell.
\<close>

definition convert_cell :: "'n json \<Rightarrow> exn + 'n json" where
  "convert_cell cell =
     (case cell of
        JObj c \<Rightarrow>
          if map_of c ''cell_type'' = Some (JStr ''code'') then
            (case (case map_of c ''metadata'' of None \<Rightarrow> JObj [] | Some m \<Rightarrow> m) of
               JObj metadata \<Rightarrow>
                 if map_of metadata ''language'' = Some (JStr ''sql'') then
                   (let c1 = dict_set c ''metadata''
                               (JObj (dict_set metadata ''language'' (JStr ''python'')));
                        source = (case map_of c1 ''source'' of None \<Rightarrow> JArr [] | Some x \<Rightarrow> x);
                        source' = (case source of
                                     JStr body \<Rightarrow> JStr (''%%snowsql\<newline>'' @ body)
                                   | JArr lines \<Rightarrow> JArr (JStr ''%%snowsql\<newline>'' # lines)
                                   | _ \<Rightarrow> source)
                    in Inr (JObj (dict_set c1 ''source'' source')))
                 else Inr cell
             | _ \<Rightarrow> Inl AttributeError)
          else Inr cell
      | _ \<Rightarrow> Inl AttributeError)"

fun convert_cells :: "'n json list \<Rightarrow> exn + 'n json list" where
  "convert_cells [] = Inr []"
| "convert_cells (cell # cells) =
     (case convert_cell cell of
        Inl e \<Rightarrow> Inl e
      | Inr cell' \<Rightarrow>
          (case convert_cells cells of
             Inl e \<Rightarrow> Inl e
           | Inr cells' \<Rightarrow> Inr (cell' # cells')))"

subsection \<open>\<open>convert_notebook\<close> (lines 20-110)\<close>

text \<open>
  Lines 36-103, on the document loaded. \<open>notebook.setdefault\<close> raises \<open>AttributeError\<close>
  on a document that is no \<open>dict\<close>, and adds an empty list of cells to one without
  \<open>cells\<close>; \<open>+\<close> raises \<open>TypeError\<close> when the cells are no \<open>list\<close>.
\<close>

definition convert_document :: "(nat \<Rightarrow> string) \<Rightarrow> 'n json \<Rightarrow> exn + 'n json" where
  "convert_document uuid notebook =
     (case notebook of
        JObj nb \<Rightarrow>
          (let nb1 = (case map_of nb ''cells'' of None \<Rightarrow> dict_set nb ''cells'' (JArr []) | Some x \<Rightarrow> nb)
           in case map_of nb1 ''cells'' of
                Some (JArr cells) \<Rightarrow>
                  (case convert_cells (new_cells_at_beginning uuid @ cells) of
                     Inl e \<Rightarrow> Inl e
                   | Inr cells' \<Rightarrow> Inr (JObj (dict_set nb1 ''cells'' (JArr cells'))))
              | _ \<Rightarrow> Inl TypeError)
      | _ \<Rightarrow> Inl AttributeError)"

text \<open>
  What the first \<open>try\<close> block gives: \<open>open\<close> raises \<open>FileNotFoundError\<close>, \<open>json.load\<close> raises
  \<open>json.JSONDecodeError\<close>, one of them raises another exception (a directory, a file that
  may not be read, bytes that are no UTF-8), or the document is loaded.
\<close>

datatype 'n load_result = NoInputFile | NotJSON | LoadRaises string | Loaded "'n json"

text \<open>
  What a call has done: the lines printed, the document that was written to the output
  file, and the exception that has left the call. The second \<open>try\<close> block writes the
  document or raises an \<open>IOError\<close> with its text: \<open>write doc = Some e\<close>.
\<close>

record 'n conversion =
  printed :: "string list"
  written :: "'n json option"
  raised :: "exn option"

definition convert_notebook ::
  "(nat \<Rightarrow> string) \<Rightarrow> 'n load_result \<Rightarrow> ('n json \<Rightarrow> string option) \<Rightarrow> string \<Rightarrow> string
     \<Rightarrow> 'n conversion" where
  "convert_notebook uuid load write input_filename output_filename =
     (case load of
        NoInputFile \<Rightarrow>
          \<lparr>printed = [''Error: Input file not found at '' @ input_filename],
           written = None, raised = None\<rparr>
      | NotJSON \<Rightarrow>
          \<lparr>printed = [''Error: Could not decode JSON from '' @ input_filename],
           written = None, raised = None\<rparr>
      | LoadRaises e \<Rightarrow> \<lparr>printed = [], written = None, raised = Some (Uncaught e)\<rparr>
      | Loaded notebook \<Rightarrow>
          (case convert_document uuid notebook of
             Inl e \<Rightarrow> \<lparr>printed = [], written = None, raised = Some e\<rparr>
           | Inr notebook' \<Rightarrow>
               (case write notebook' of
                  None \<Rightarrow>
                    \<lparr>printed = [''Successfully converted '' @ input_filename @ '' to ''
                                @ output_filename],
                     written = Some notebook', raised = None\<rparr>
                | Some e \<Rightarrow>
                    \<lparr>printed = [''Error writing to output file '' @ output_filename @ '': '' @ e],
                     written = None, raised = None\<rparr>)))"

subsection \<open>The specification's words for a notebook\<close>

text \<open>
  The fields and the keys of a mapping, the language tag in the metadata of a cell, and
  the cells of a document.
\<close>

definition field_of :: "'n json \<Rightarrow> string \<Rightarrow> 'n json option" where
  "field_of c k = (case c of JObj d \<Rightarrow> map_of d k | _ \<Rightarrow> None)"

definition keys_of :: "'n json \<Rightarrow> string list" where
  "keys_of c = (case c of JObj d \<Rightarrow> map fst d | _ \<Rightarrow> [])"

definition language_of :: "'n json \<Rightarrow> 'n json option" where
  "language_of c =
     (case field_of c ''metadata'' of None \<Rightarrow> None | Some m \<Rightarrow> field_of m ''language'')"

definition cells_of :: "'n json \<Rightarrow> 'n json list" where
  "cells_of nb = (case field_of nb ''cells'' of Some (JArr cs) \<Rightarrow> cs | _ \<Rightarrow> [])"

text \<open>A code cell whose metadata language equals \<open>sql\<close>.\<close>

definition sql_cell :: "'n json \<Rightarrow> bool" where
  "sql_cell c =
     (field_of c ''cell_type'' = Some (JStr ''code'')
      \<and> language_of c = Some (JStr ''sql''))"

text \<open>
  A well-formed notebook is a mapping with a key \<open>cells\<close> that holds a sequence of cells;
  a cell is a mapping with a type, \<open>markdown\<close> or \<open>code\<close>, an identifier, a source, which is
  a text or a sequence, and, optionally, metadata, which is a mapping.
\<close>

definition is_dict :: "'n json \<Rightarrow> bool" where
  "is_dict x = (case x of JObj d \<Rightarrow> True | _ \<Rightarrow> False)"

definition is_source :: "'n json \<Rightarrow> bool" where
  "is_source x = (case x of JStr body \<Rightarrow> True | JArr lines \<Rightarrow> True | _ \<Rightarrow> False)"

definition well_formed_cell :: "'n json \<Rightarrow> bool" where
  "well_formed_cell c =
     (is_dict c
      \<and> field_of c ''cell_type'' \<in> {Some (JStr ''markdown''), Some (JStr ''code'')}
      \<and> field_of c ''id'' \<noteq> None
      \<and> (case field_of c ''source'' of None \<Rightarrow> False | Some x \<Rightarrow> is_source x)
      \<and> (case field_of c ''metadata'' of None \<Rightarrow> True | Some m \<Rightarrow> is_dict m))"

definition well_formed :: "'n json \<Rightarrow> bool" where
  "well_formed nb =
     (is_dict nb
      \<and> (case field_of nb ''cells'' of
            Some (JArr cs) \<Rightarrow> list_all well_formed_cell cs
          | _ \<Rightarrow> False))"

text \<open>A notebook, an identifier source and two writers for the examples.\<close>

definition demo_notebook :: "int json" where
  "demo_notebook =
     JObj [(''metadata'', JObj [(''kernelspec'', JStr ''sf'')]),
           (''cells'',
            JArr [JObj [(''cell_type'', JStr ''markdown''), (''id'', JStr ''m1''),
                        (''source'', JStr ''# Title'')],
                  JObj [(''cell_type'', JStr ''code''), (''id'', JStr ''c1''),
                        (''metadata'', JObj [(''language'', JStr ''sql''), (''name'', JStr ''q'')]),
                        (''source'', JStr ''SELECT 1;''), (''outputs'', JArr [])],
                  JObj [(''cell_type'', JStr ''code''), (''id'', JStr ''c2''),
                        (''metadata'', JObj [(''language'', JStr ''sql'')]),
                        (''source'', JArr [JStr ''SELECT 2;''])],
                  JObj [(''cell_type'', JStr ''code''), (''id'', JStr ''c3''),
                        (''metadata'', JObj [(''language'', JStr ''python'')]),
                        (''source'', JStr ''print(1)'')]]),
           (''nbformat'', JNum 4)]"

definition empty_notebook :: "int json" where
  "empty_notebook = JObj [(''cells'', JArr [])]"

definition demo_uuid :: "nat \<Rightarrow> string" where
  "demo_uuid i = ''id-'' @ [''012345'' ! i]"



subsection \<open>Dictionaries\<close>

lemma map_of_dict_set: "map_of (dict_set d k v) = (map_of d)(k \<mapsto> v)"
  by (induction d) auto

lemma keys_dict_set: "map_of d k \<noteq> None \<Longrightarrow> map fst (dict_set d k v) = map fst d"
  by (induction d) auto

lemma dict_set_twice: "dict_set (dict_set d k v) k w = dict_set d k w"
  by (induction d) auto

subsection \<open>One cell\<close>

lemma sql_cell_iff:
  "sql_cell c \<longleftrightarrow>
     (\<exists>d m. c = JObj d \<and> map_of d ''cell_type'' = Some (JStr ''code'')
        \<and> map_of d ''metadata'' = Some (JObj m) \<and> map_of m ''language'' = Some (JStr ''sql''))"
  by (auto simp: sql_cell_def language_of_def field_of_def split: json.splits option.splits)

lemma convert_cell_not_sql:
  assumes "convert_cell c = Inr c'" and "\<not> sql_cell c"
  shows "c' = c"
  using assms
  by (auto simp: convert_cell_def sql_cell_iff Let_def split: json.splits option.splits if_splits)

lemma convert_cell_sql:
  assumes "sql_cell c"
  shows "\<exists>d m. c = JObj d \<and> map_of d ''metadata'' = Some (JObj m)
           \<and> convert_cell c
             = Inr (JObj (dict_set
                     (dict_set d ''metadata'' (JObj (dict_set m ''language'' (JStr ''python''))))
                     ''source''
                     (case map_of d ''source'' of
                        None \<Rightarrow> JArr [JStr ''%%snowsql\<newline>'']
                      | Some (JStr body) \<Rightarrow> JStr (''%%snowsql\<newline>'' @ body)
                      | Some (JArr lines) \<Rightarrow> JArr (JStr ''%%snowsql\<newline>'' # lines)
                      | Some x \<Rightarrow> x)))"
proof -
  from assms obtain d m where c: "c = JObj d"
    and t: "map_of d ''cell_type'' = Some (JStr ''code'')"
    and md: "map_of d ''metadata'' = Some (JObj m)"
    and l: "map_of m ''language'' = Some (JStr ''sql'')"
    by (auto simp: sql_cell_iff)
  have "convert_cell c
      = Inr (JObj (dict_set
              (dict_set d ''metadata'' (JObj (dict_set m ''language'' (JStr ''python''))))
              ''source''
              (case map_of d ''source'' of
                 None \<Rightarrow> JArr [JStr ''%%snowsql\<newline>'']
               | Some (JStr body) \<Rightarrow> JStr (''%%snowsql\<newline>'' @ body)
               | Some (JArr lines) \<Rightarrow> JArr (JStr ''%%snowsql\<newline>'' # lines)
               | Some x \<Rightarrow> x)))"
    using t md l
    by (simp add: c convert_cell_def Let_def map_of_dict_set split: option.splits json.splits)
  with c md show ?thesis by blast
qed

lemma convert_cell_language:
  assumes "convert_cell c = Inr c'" and "sql_cell c"
  shows "language_of c' = Some (JStr ''python'')"
  using convert_cell_sql [OF assms(2)] assms(1)
  by (auto simp: language_of_def field_of_def map_of_dict_set)

lemma convert_cell_source:
  assumes "convert_cell c = Inr c'" and "sql_cell c"
  shows "field_of c ''source'' = Some (JStr body)
           \<Longrightarrow> field_of c' ''source'' = Some (JStr (''%%snowsql\<newline>'' @ body))"
    and "field_of c ''source'' = Some (JArr lines)
           \<Longrightarrow> field_of c' ''source'' = Some (JArr (JStr ''%%snowsql\<newline>'' # lines))"
  using convert_cell_sql [OF assms(2)] assms(1)
  by (auto simp: field_of_def map_of_dict_set)

lemma convert_cell_other_fields:
  assumes "convert_cell c = Inr c'" and "k \<noteq> ''metadata''" and "k \<noteq> ''source''"
  shows "field_of c' k = field_of c k"
proof (cases "sql_cell c")
  case True
  from convert_cell_sql [OF True] assms show ?thesis
    by (auto simp: field_of_def map_of_dict_set)
next
  case False
  from convert_cell_not_sql [OF assms(1) False] show ?thesis
    by simp
qed

lemma convert_cell_metadata:
  assumes "convert_cell c = Inr c'" and "sql_cell c"
  shows "\<exists>m m'. field_of c ''metadata'' = Some (JObj m)
           \<and> field_of c' ''metadata'' = Some (JObj m')
           \<and> map fst m' = map fst m
           \<and> (\<forall>k. k \<noteq> ''language'' \<longrightarrow> map_of m' k = map_of m k)"
proof -
  from assms(2) obtain d m where c: "c = JObj d"
    and md: "map_of d ''metadata'' = Some (JObj m)"
    and l: "map_of m ''language'' = Some (JStr ''sql'')"
    by (auto simp: sql_cell_iff)
  from l have "map fst (dict_set m ''language'' (JStr ''python'')) = map fst m"
    by (simp add: keys_dict_set)
  moreover have "field_of c' ''metadata'' = Some (JObj (dict_set m ''language'' (JStr ''python'')))"
    using convert_cell_sql [OF assms(2)] assms(1) c md
    by (auto simp: field_of_def map_of_dict_set)
  ultimately show ?thesis
    using c md by (auto simp: field_of_def map_of_dict_set)
qed

lemma convert_cell_keys:
  assumes "convert_cell c = Inr c'" and "field_of c ''source'' \<noteq> None"
  shows "keys_of c' = keys_of c"
proof (cases "sql_cell c")
  case True
  from convert_cell_sql [OF True] assms show ?thesis
    by (auto simp: field_of_def keys_of_def keys_dict_set map_of_dict_set)
next
  case False
  from convert_cell_not_sql [OF assms(1) False] show ?thesis
    by simp
qed

lemma convert_cell_result:
  assumes "convert_cell c = Inr c'"
  shows "\<not> sql_cell c'" and "convert_cell c' = Inr c'"
proof -
  have "\<not> sql_cell c' \<and> convert_cell c' = Inr c'"
  proof (cases "sql_cell c")
    case True
    from convert_cell_sql [OF True] assms obtain d m src where
      c': "c' = JObj (dict_set
                 (dict_set d ''metadata'' (JObj (dict_set m ''language'' (JStr ''python''))))
                 ''source'' src)"
      by auto
    have "\<not> sql_cell c'"
      by (simp add: c' sql_cell_iff map_of_dict_set)
    moreover have "convert_cell c' = Inr c'"
      by (simp add: c' convert_cell_def map_of_dict_set)
    ultimately show ?thesis ..
  next
    case False
    with assms have "c' = c"
      by (rule convert_cell_not_sql)
    with assms False show ?thesis
      by simp
  qed
  then show "\<not> sql_cell c'" and "convert_cell c' = Inr c'"
    by simp_all
qed

lemma convert_cell_python:
  assumes "language_of c = Some (JStr ''python'')"
  shows "convert_cell c = Inr c"
  using assms
  by (auto simp: convert_cell_def language_of_def field_of_def
           split: json.splits option.splits)

lemma convert_cell_well_formed:
  assumes "well_formed_cell c"
  shows "\<exists>c'. convert_cell c = Inr c'"
  using assms
  by (auto simp: convert_cell_def well_formed_cell_def is_dict_def field_of_def Let_def
           split: json.splits option.splits)

subsection \<open>The cells of a document\<close>

lemma convert_cells_Inr:
  "convert_cells cs = Inr cs' \<longleftrightarrow> list_all2 (\<lambda>c c'. convert_cell c = Inr c') cs cs'"
proof (induction cs arbitrary: cs')
  case Nil
  show ?case by auto
next
  case (Cons c cs)
  show ?case
    by (cases cs') (auto simp: Cons.IH [symmetric] split: sum.splits)
qed

lemma convert_cells_append:
  "convert_cells (cs @ ds) =
     (case convert_cells cs of
        Inl e \<Rightarrow> Inl e
      | Inr cs' \<Rightarrow>
          (case convert_cells ds of Inl e \<Rightarrow> Inl e | Inr ds' \<Rightarrow> Inr (cs' @ ds')))"
  by (induction cs) (auto split: sum.splits)

lemma convert_cells_well_formed:
  "list_all well_formed_cell cs \<Longrightarrow> \<exists>cs'. convert_cells cs = Inr cs'"
proof (induction cs)
  case Nil
  show ?case by simp
next
  case (Cons c cs)
  then obtain cs' where "convert_cells cs = Inr cs'"
    by auto
  moreover from Cons.prems obtain c' where "convert_cell c = Inr c'"
    using convert_cell_well_formed [of c] by auto
  ultimately show ?case
    by simp
qed

lemma convert_cells_fixed:
  "convert_cells cs = Inr cs' \<Longrightarrow> convert_cells cs' = Inr cs'"
  unfolding convert_cells_Inr
  by (induction rule: list_all2_induct) (simp_all add: convert_cell_result(2))

lemma length_new_cells_at_beginning: "length (new_cells_at_beginning uuid) = 6"
  by (simp add: new_cells_at_beginning_def)

lemma convert_new_cells_at_beginning:
  "convert_cells (new_cells_at_beginning uuid) = Inr (new_cells_at_beginning uuid)"
  by (simp add: new_cells_at_beginning_def convert_cell_def)

lemma convert_cells_prefixed:
  "convert_cells (new_cells_at_beginning uuid @ cs) =
     (case convert_cells cs of
        Inl e \<Rightarrow> Inl e
      | Inr cs' \<Rightarrow> Inr (new_cells_at_beginning uuid @ cs'))"
  by (simp add: convert_cells_append convert_new_cells_at_beginning)

lemma convert_document_Inr:
  "convert_document uuid nb = Inr out
     \<longleftrightarrow> (\<exists>d cs'. nb = JObj d
           \<and> (map_of d ''cells'' = None \<or> (\<exists>cs. map_of d ''cells'' = Some (JArr cs)))
           \<and> convert_cells (cells_of nb) = Inr cs'
           \<and> out = JObj (dict_set d ''cells'' (JArr (new_cells_at_beginning uuid @ cs'))))"
proof (cases nb)
  case (JObj d)
  show ?thesis
  proof (cases "map_of d ''cells''")
    case None
    then show ?thesis
      by (auto simp: JObj convert_document_def cells_of_def field_of_def map_of_dict_set
                     dict_set_twice convert_new_cells_at_beginning)
  next
    case (Some x)
    then show ?thesis
      by (cases x)
         (auto simp: JObj convert_document_def cells_of_def field_of_def convert_cells_prefixed
               split: sum.splits)
  qed
qed (simp_all add: convert_document_def)

lemma cells_of_converted:
  "cells_of (JObj (dict_set d ''cells'' (JArr cs))) = cs"
  by (simp add: cells_of_def field_of_def map_of_dict_set)

lemmas converter_eval_defs =
  convert_notebook_def convert_document_def convert_cell_def new_cells_at_beginning_def
  cells_of_def field_of_def keys_of_def language_of_def sql_cell_def well_formed_def
  well_formed_cell_def is_dict_def is_source_def

subsection \<open>A document\<close>

lemma convert_cells_nth:
  assumes "convert_cells cs = Inr cs'"
  shows "length cs' = length cs"
    and "i < length cs \<Longrightarrow> convert_cell (cs ! i) = Inr (cs' ! i)"
proof -
  from assms have all: "list_all2 (\<lambda>c c'. convert_cell c = Inr c') cs cs'"
    by (simp add: convert_cells_Inr)
  from all show "length cs' = length cs"
    by (simp add: list_all2_lengthD)
  from all show "convert_cell (cs ! i) = Inr (cs' ! i)" if "i < length cs"
    using that by (rule list_all2_nthD)
qed

lemma convert_cells_not_sql:
  "convert_cells cs = Inr cs' \<Longrightarrow> c' \<in> set cs' \<Longrightarrow> \<not> sql_cell c'"
  unfolding convert_cells_Inr
  by (induction rule: list_all2_induct) (auto dest: convert_cell_result(1))

lemma convert_document_cells:
  assumes "convert_document uuid nb = Inr out"
  shows "\<exists>cs'. convert_cells (cells_of nb) = Inr cs'
           \<and> cells_of out = new_cells_at_beginning uuid @ cs'"
  using assms
  by (auto simp: convert_document_Inr cells_of_converted)

lemma convert_document_nth:
  assumes "convert_document uuid nb = Inr out"
  shows "length (cells_of out) = 6 + length (cells_of nb)"
    and "take 6 (cells_of out) = new_cells_at_beginning uuid"
    and "i < length (cells_of nb)
           \<Longrightarrow> convert_cell (cells_of nb ! i) = Inr (cells_of out ! (6 + i))"
proof -
  from convert_document_cells [OF assms] obtain cs' where
    cs': "convert_cells (cells_of nb) = Inr cs'"
    and out: "cells_of out = new_cells_at_beginning uuid @ cs'"
    by blast
  show "length (cells_of out) = 6 + length (cells_of nb)"
    by (simp add: out length_new_cells_at_beginning convert_cells_nth(1) [OF cs'])
  show "take 6 (cells_of out) = new_cells_at_beginning uuid"
    by (simp add: out length_new_cells_at_beginning)
  show "convert_cell (cells_of nb ! i) = Inr (cells_of out ! (6 + i))"
    if "i < length (cells_of nb)"
    using convert_cells_nth(2) [OF cs' that]
    by (simp add: out nth_append length_new_cells_at_beginning)
qed

lemma convert_document_fixed:
  assumes "convert_document uuid nb = Inr out"
  shows "convert_cells (cells_of out) = Inr (cells_of out)"
    and "\<exists>out2. convert_document uuid2 out = Inr out2"
proof -
  from assms obtain d cs' where
    cs': "convert_cells (cells_of nb) = Inr cs'"
    and out: "out = JObj (dict_set d ''cells'' (JArr (new_cells_at_beginning uuid @ cs')))"
    by (auto simp: convert_document_Inr)
  have cells: "cells_of out = new_cells_at_beginning uuid @ cs'"
    by (simp add: out cells_of_converted)
  show fixed: "convert_cells (cells_of out) = Inr (cells_of out)"
    using convert_cells_fixed [OF cs']
    by (simp add: cells convert_cells_prefixed)
  have "map_of (dict_set d ''cells'' (JArr (new_cells_at_beginning uuid @ cs'))) ''cells''
      = Some (JArr (new_cells_at_beginning uuid @ cs'))"
    by (simp add: map_of_dict_set)
  with fixed show "\<exists>out2. convert_document uuid2 out = Inr out2"
    unfolding convert_document_Inr out by blast
qed

lemma convert_document_not_sql:
  assumes "convert_document uuid nb = Inr out" and "c \<in> set (cells_of out)"
  shows "\<not> sql_cell c"
  using convert_cells_not_sql [OF convert_document_fixed(1) [OF assms(1)] assms(2)] .

lemma convert_document_top_level:
  assumes "convert_document uuid nb = Inr out"
  shows "k \<noteq> ''cells'' \<Longrightarrow> field_of out k = field_of nb k"
    and "field_of nb ''cells'' \<noteq> None \<Longrightarrow> keys_of out = keys_of nb"
  using assms
  by (auto simp: convert_document_Inr field_of_def keys_of_def map_of_dict_set keys_dict_set)

lemma convert_document_well_formed:
  assumes "well_formed nb"
  shows "\<exists>out. convert_document uuid nb = Inr out"
    and "field_of nb ''cells'' \<noteq> None"
    and "list_all well_formed_cell (cells_of nb)"
proof -
  from assms obtain d cs where nb: "nb = JObj d"
    and cells: "map_of d ''cells'' = Some (JArr cs)"
    and wf: "list_all well_formed_cell cs"
    by (auto simp: well_formed_def is_dict_def field_of_def split: json.splits option.splits)
  from cells have cs: "cells_of nb = cs"
    by (simp add: nb cells_of_def field_of_def)
  from convert_cells_well_formed [OF wf] obtain cs' where "convert_cells cs = Inr cs'"
    by blast
  with cells cs show "\<exists>out. convert_document uuid nb = Inr out"
    by (simp add: convert_document_Inr nb)
  from cells show "field_of nb ''cells'' \<noteq> None"
    by (simp add: nb field_of_def)
  from wf cs show "list_all well_formed_cell (cells_of nb)"
    by simp
qed

lemma well_formed_cell_source:
  "well_formed_cell c \<Longrightarrow> field_of c ''source'' \<noteq> None"
  by (auto simp: well_formed_cell_def split: option.splits)

section \<open>Claims about the notebook converter\<close>

text \<open>
  C4: the converter returns a document for every well-formed notebook, and in every
  document it returns, each code cell of the input whose metadata language equals \<open>sql\<close>
  stands six places further on as a code cell with language \<open>python\<close> whose source begins
  with the marker line \<^verbatim>\<open>%%snowsql\<close>: a source that was a text is the marker line followed
  by that text, a source that was a sequence of lines is that sequence with the marker
  line as its new first element. No cell of the output is a code cell with language
  \<open>sql\<close>.
\<close>

theorem convert_document_sql_cells:
  "(well_formed nb \<longrightarrow> (\<exists>out. convert_document uuid nb = Inr out))
   \<and> (\<forall>out. convert_document uuid nb = Inr out \<longrightarrow>
          length (cells_of out) = 6 + length (cells_of nb)
          \<and> (\<forall>i<length (cells_of nb). sql_cell (cells_of nb ! i) \<longrightarrow>
                field_of (cells_of out ! (6 + i)) ''cell_type'' = Some (JStr ''code'')
                \<and> language_of (cells_of out ! (6 + i)) = Some (JStr ''python'')
                \<and> (\<forall>body. field_of (cells_of nb ! i) ''source'' = Some (JStr body) \<longrightarrow>
                      field_of (cells_of out ! (6 + i)) ''source''
                        = Some (JStr (''%%snowsql\<newline>'' @ body)))
                \<and> (\<forall>lines. field_of (cells_of nb ! i) ''source'' = Some (JArr lines) \<longrightarrow>
                      field_of (cells_of out ! (6 + i)) ''source''
                        = Some (JArr (JStr ''%%snowsql\<newline>'' # lines))))
          \<and> (\<forall>c\<in>set (cells_of out). \<not> sql_cell c))"
proof (intro conjI allI impI ballI)
  assume "well_formed nb"
  then show "\<exists>out. convert_document uuid nb = Inr out"
    by (rule convert_document_well_formed(1))
next
  fix out
  assume conv: "convert_document uuid nb = Inr out"
  show "length (cells_of out) = 6 + length (cells_of nb)"
    using conv by (rule convert_document_nth(1))
  show "\<not> sql_cell c" if "c \<in> set (cells_of out)" for c
    using conv that by (rule convert_document_not_sql)
  fix i
  assume i: "i < length (cells_of nb)" and sql: "sql_cell (cells_of nb ! i)"
  have cell: "convert_cell (cells_of nb ! i) = Inr (cells_of out ! (6 + i))"
    using conv i by (rule convert_document_nth(3))
  from sql have "field_of (cells_of nb ! i) ''cell_type'' = Some (JStr ''code'')"
    by (simp add: sql_cell_def)
  then show "field_of (cells_of out ! (6 + i)) ''cell_type'' = Some (JStr ''code'')"
    by (simp add: convert_cell_other_fields [OF cell])
  show "language_of (cells_of out ! (6 + i)) = Some (JStr ''python'')"
    using cell sql by (rule convert_cell_language)
  show "field_of (cells_of out ! (6 + i)) ''source'' = Some (JStr (''%%snowsql\<newline>'' @ body))"
    if "field_of (cells_of nb ! i) ''source'' = Some (JStr body)" for body
    using cell sql that by (rule convert_cell_source(1))
  show "field_of (cells_of out ! (6 + i)) ''source''
      = Some (JArr (JStr ''%%snowsql\<newline>'' # lines))"
    if "field_of (cells_of nb ! i) ''source'' = Some (JArr lines)" for lines
    using cell sql that by (rule convert_cell_source(2))
qed

theorem convert_document_sql_cells_witness:
  "well_formed demo_notebook
   \<and> sql_cell (cells_of demo_notebook ! 1)
   \<and> field_of (cells_of demo_notebook ! 1) ''source'' = Some (JStr ''SELECT 1;'')
   \<and> sql_cell (cells_of demo_notebook ! 2)
   \<and> field_of (cells_of demo_notebook ! 2) ''source'' = Some (JArr [JStr ''SELECT 2;''])
   \<and> (\<exists>out. convert_document demo_uuid demo_notebook = Inr out
         \<and> length (cells_of out) = 10
         \<and> language_of (cells_of out ! 7) = Some (JStr ''python'')
         \<and> field_of (cells_of out ! 7) ''source'' = Some (JStr ''%%snowsql\<newline>SELECT 1;'')
         \<and> language_of (cells_of out ! 8) = Some (JStr ''python'')
         \<and> field_of (cells_of out ! 8) ''source''
           = Some (JArr [JStr ''%%snowsql\<newline>'', JStr ''SELECT 2;'']))"
proof -
  note t = convert_document_sql_cells [of demo_notebook demo_uuid]
  have cells: "cells_of demo_notebook =
      [JObj [(''cell_type'', JStr ''markdown''), (''id'', JStr ''m1''),
             (''source'', JStr ''# Title'')],
       JObj [(''cell_type'', JStr ''code''), (''id'', JStr ''c1''),
             (''metadata'', JObj [(''language'', JStr ''sql''), (''name'', JStr ''q'')]),
             (''source'', JStr ''SELECT 1;''), (''outputs'', JArr [])],
       JObj [(''cell_type'', JStr ''code''), (''id'', JStr ''c2''),
             (''metadata'', JObj [(''language'', JStr ''sql'')]),
             (''source'', JArr [JStr ''SELECT 2;''])],
       JObj [(''cell_type'', JStr ''code''), (''id'', JStr ''c3''),
             (''metadata'', JObj [(''language'', JStr ''python'')]),
             (''source'', JStr ''print(1)'')]]"
    by (simp add: demo_notebook_def cells_of_def field_of_def)
  have wf: "well_formed demo_notebook"
    by (simp add: demo_notebook_def well_formed_def well_formed_cell_def is_dict_def
                  is_source_def field_of_def)
  have i1: "1 < length (cells_of demo_notebook)" and i2: "2 < length (cells_of demo_notebook)"
    by (simp_all add: cells)
  have sql1: "sql_cell (cells_of demo_notebook ! 1)"
    and sql2: "sql_cell (cells_of demo_notebook ! 2)"
    by (simp_all add: cells sql_cell_def language_of_def field_of_def)
  have src1: "field_of (cells_of demo_notebook ! 1) ''source'' = Some (JStr ''SELECT 1;'')"
    and src2: "field_of (cells_of demo_notebook ! 2) ''source'' = Some (JArr [JStr ''SELECT 2;''])"
    by (simp_all add: cells field_of_def)
  from t [THEN conjunct1, rule_format, OF wf] obtain out where
    conv: "convert_document demo_uuid demo_notebook = Inr out"
    by blast
  note props = t [THEN conjunct2, rule_format, OF conv]
  from props have len: "length (cells_of out) = 10"
    by (simp add: cells)
  note p1 = props [THEN conjunct2, THEN conjunct1, rule_format, OF i1 sql1]
  note p2 = props [THEN conjunct2, THEN conjunct1, rule_format, OF i2 sql2]
  from p1 src1 have c1: "language_of (cells_of out ! 7) = Some (JStr ''python'')
      \<and> field_of (cells_of out ! 7) ''source'' = Some (JStr ''%%snowsql\<newline>SELECT 1;'')"
    by simp
  from p2 src2 have c2: "language_of (cells_of out ! 8) = Some (JStr ''python'')
      \<and> field_of (cells_of out ! 8) ''source''
        = Some (JArr [JStr ''%%snowsql\<newline>'', JStr ''SELECT 2;''])"
    by simp
  from wf sql1 src1 sql2 src2 conv len c1 c2 show ?thesis
    by blast
qed

text \<open>
  C7, as the specification states it, fails on the number of the cells added: the
  converter puts six cells, not five, in front of a notebook, here one without cells.
\<close>

theorem convert_document_five_cells_counterexample:
  "well_formed empty_notebook
   \<and> cells_of empty_notebook = []
   \<and> (case convert_document demo_uuid empty_notebook of
        Inl e \<Rightarrow> []
      | Inr out \<Rightarrow> map (\<lambda>c. (field_of c ''id'', field_of c ''cell_type'')) (cells_of out))
     = [(Some (JStr ''id-0''), Some (JStr ''markdown'')),
        (Some (JStr ''id-1''), Some (JStr ''code'')),
        (Some (JStr ''id-2''), Some (JStr ''markdown'')),
        (Some (JStr ''id-3''), Some (JStr ''code'')),
        (Some (JStr ''id-4''), Some (JStr ''markdown'')),
        (Some (JStr ''id-5''), Some (JStr ''code''))]"
  by (simp add: empty_notebook_def demo_uuid_def converter_eval_defs)

text \<open>
  C7 (amended): for every well-formed notebook the converter returns a document, and
  that document is the notebook with exactly six fixed cells in front. Every cell of the
  input stands six places further on; one that is not a code cell with language \<open>sql\<close> is
  unchanged; one that is keeps its keys in their order, every field other than
  \<open>metadata\<close> and \<open>source\<close>, and in its metadata the keys in their order and every entry
  other than \<open>language\<close>. The top-level keys keep their order and every top-level entry
  other than \<open>cells\<close> is unchanged.
\<close>

theorem convert_document_frame:
  "(well_formed nb \<longrightarrow> (\<exists>out. convert_document uuid nb = Inr out))
   \<and> (\<forall>out. well_formed nb \<and> convert_document uuid nb = Inr out \<longrightarrow>
          length (cells_of out) = 6 + length (cells_of nb)
          \<and> take 6 (cells_of out) = new_cells_at_beginning uuid
          \<and> (\<forall>i<length (cells_of nb).
                (\<not> sql_cell (cells_of nb ! i) \<longrightarrow> cells_of out ! (6 + i) = cells_of nb ! i)
                \<and> keys_of (cells_of out ! (6 + i)) = keys_of (cells_of nb ! i)
                \<and> (\<forall>k. k \<noteq> ''metadata'' \<and> k \<noteq> ''source'' \<longrightarrow>
                      field_of (cells_of out ! (6 + i)) k = field_of (cells_of nb ! i) k)
                \<and> (sql_cell (cells_of nb ! i) \<longrightarrow>
                      (\<exists>m m'. field_of (cells_of nb ! i) ''metadata'' = Some (JObj m)
                         \<and> field_of (cells_of out ! (6 + i)) ''metadata'' = Some (JObj m')
                         \<and> map fst m' = map fst m
                         \<and> (\<forall>k. k \<noteq> ''language'' \<longrightarrow> map_of m' k = map_of m k))))
          \<and> keys_of out = keys_of nb
          \<and> (\<forall>k. k \<noteq> ''cells'' \<longrightarrow> field_of out k = field_of nb k))"
proof (intro conjI allI impI)
  assume "well_formed nb"
  then show "\<exists>out. convert_document uuid nb = Inr out"
    by (rule convert_document_well_formed(1))
next
  fix out
  assume h: "well_formed nb \<and> convert_document uuid nb = Inr out"
  then have wf: "well_formed nb" and conv: "convert_document uuid nb = Inr out"
    by simp_all
  show "length (cells_of out) = 6 + length (cells_of nb)"
    using conv by (rule convert_document_nth(1))
  show "take 6 (cells_of out) = new_cells_at_beginning uuid"
    using conv by (rule convert_document_nth(2))
  show "keys_of out = keys_of nb"
    using conv convert_document_well_formed(2) [OF wf] by (rule convert_document_top_level(2))
  show "field_of out k = field_of nb k" if "k \<noteq> ''cells''" for k
    using conv that by (rule convert_document_top_level(1))
  fix i
  assume i: "i < length (cells_of nb)"
  have cell: "convert_cell (cells_of nb ! i) = Inr (cells_of out ! (6 + i))"
    using conv i by (rule convert_document_nth(3))
  from convert_document_well_formed(3) [OF wf] i
  have "well_formed_cell (cells_of nb ! i)"
    by (simp add: list_all_length)
  then have src: "field_of (cells_of nb ! i) ''source'' \<noteq> None"
    by (rule well_formed_cell_source)
  show "cells_of out ! (6 + i) = cells_of nb ! i" if "\<not> sql_cell (cells_of nb ! i)"
    using cell that by (rule convert_cell_not_sql)
  show "keys_of (cells_of out ! (6 + i)) = keys_of (cells_of nb ! i)"
    using cell src by (rule convert_cell_keys)
  show "field_of (cells_of out ! (6 + i)) k = field_of (cells_of nb ! i) k"
    if "k \<noteq> ''metadata'' \<and> k \<noteq> ''source''" for k
    using that by (simp add: convert_cell_other_fields [OF cell])
  show "\<exists>m m'. field_of (cells_of nb ! i) ''metadata'' = Some (JObj m)
      \<and> field_of (cells_of out ! (6 + i)) ''metadata'' = Some (JObj m')
      \<and> map fst m' = map fst m
      \<and> (\<forall>k. k \<noteq> ''language'' \<longrightarrow> map_of m' k = map_of m k)"
    if "sql_cell (cells_of nb ! i)"
    using cell that by (rule convert_cell_metadata)
qed

theorem convert_document_frame_witness:
  "well_formed demo_notebook
   \<and> (\<exists>out. convert_document demo_uuid demo_notebook = Inr out
         \<and> length (cells_of out) = 10
         \<and> cells_of out ! 6
           = JObj [(''cell_type'', JStr ''markdown''), (''id'', JStr ''m1''),
                   (''source'', JStr ''# Title'')]
         \<and> cells_of out ! 9
           = JObj [(''cell_type'', JStr ''code''), (''id'', JStr ''c3''),
                   (''metadata'', JObj [(''language'', JStr ''python'')]),
                   (''source'', JStr ''print(1)'')]
         \<and> keys_of (cells_of out ! 7)
           = [''cell_type'', ''id'', ''metadata'', ''source'', ''outputs'']
         \<and> field_of (cells_of out ! 7) ''id'' = Some (JStr ''c1'')
         \<and> field_of (cells_of out ! 7) ''outputs'' = Some (JArr [])
         \<and> (\<exists>m'. field_of (cells_of out ! 7) ''metadata'' = Some (JObj m')
               \<and> map fst m' = [''language'', ''name'']
               \<and> map_of m' ''name'' = Some (JStr ''q''))
         \<and> keys_of out = [''metadata'', ''cells'', ''nbformat'']
         \<and> field_of out ''metadata'' = Some (JObj [(''kernelspec'', JStr ''sf'')])
         \<and> field_of out ''nbformat'' = Some (JNum 4))"
proof -
  note t = convert_document_frame [of demo_notebook demo_uuid]
  have dcells: "cells_of demo_notebook =
      [JObj [(''cell_type'', JStr ''markdown''), (''id'', JStr ''m1''),
             (''source'', JStr ''# Title'')],
       JObj [(''cell_type'', JStr ''code''), (''id'', JStr ''c1''),
             (''metadata'', JObj [(''language'', JStr ''sql''), (''name'', JStr ''q'')]),
             (''source'', JStr ''SELECT 1;''), (''outputs'', JArr [])],
       JObj [(''cell_type'', JStr ''code''), (''id'', JStr ''c2''),
             (''metadata'', JObj [(''language'', JStr ''sql'')]),
             (''source'', JArr [JStr ''SELECT 2;''])],
       JObj [(''cell_type'', JStr ''code''), (''id'', JStr ''c3''),
             (''metadata'', JObj [(''language'', JStr ''python'')]),
             (''source'', JStr ''print(1)'')]]"
    by (simp add: demo_notebook_def cells_of_def field_of_def)
  have wf: "well_formed demo_notebook"
    by (simp add: demo_notebook_def well_formed_def well_formed_cell_def is_dict_def
                  is_source_def field_of_def)
  have i0: "0 < length (cells_of demo_notebook)" and i1: "1 < length (cells_of demo_notebook)"
    and i3: "3 < length (cells_of demo_notebook)"
    by (simp_all add: dcells)
  have n0: "\<not> sql_cell (cells_of demo_notebook ! 0)"
    and s1: "sql_cell (cells_of demo_notebook ! 1)"
    and n3: "\<not> sql_cell (cells_of demo_notebook ! 3)"
    by (simp_all add: dcells sql_cell_def language_of_def field_of_def)
  from t [THEN conjunct1, rule_format, OF wf] obtain out where
    conv: "convert_document demo_uuid demo_notebook = Inr out" ..
  from wf conv have h: "well_formed demo_notebook
      \<and> convert_document demo_uuid demo_notebook = Inr out" ..
  note props = t [THEN conjunct2, rule_format, OF h]
  note len = props [THEN conjunct1]
  note cells = props [THEN conjunct2, THEN conjunct2, THEN conjunct1, rule_format]
  note keys = props [THEN conjunct2, THEN conjunct2, THEN conjunct2, THEN conjunct1]
  note top = props [THEN conjunct2, THEN conjunct2, THEN conjunct2, THEN conjunct2, rule_format]
  note c0 = cells [OF i0]
  note c1 = cells [OF i1]
  note c3 = cells [OF i3]
  from len have r1: "length (cells_of out) = 10"
    by (simp add: dcells)
  from c0 [THEN conjunct1, rule_format, OF n0]
  have r2: "cells_of out ! 6
      = JObj [(''cell_type'', JStr ''markdown''), (''id'', JStr ''m1''),
              (''source'', JStr ''# Title'')]"
    by (simp add: dcells)
  from c3 [THEN conjunct1, rule_format, OF n3]
  have r3: "cells_of out ! 9
      = JObj [(''cell_type'', JStr ''code''), (''id'', JStr ''c3''),
              (''metadata'', JObj [(''language'', JStr ''python'')]),
              (''source'', JStr ''print(1)'')]"
    by (simp add: dcells)
  from c1 [THEN conjunct2, THEN conjunct1]
  have r4: "keys_of (cells_of out ! 7) = [''cell_type'', ''id'', ''metadata'', ''source'', ''outputs'']"
    by (simp add: dcells keys_of_def)
  from c1 [THEN conjunct2, THEN conjunct2, THEN conjunct1, rule_format, of "''id''"]
  have r5: "field_of (cells_of out ! 7) ''id'' = Some (JStr ''c1'')"
    by (simp add: dcells field_of_def)
  from c1 [THEN conjunct2, THEN conjunct2, THEN conjunct1, rule_format, of "''outputs''"]
  have r6: "field_of (cells_of out ! 7) ''outputs'' = Some (JArr [])"
    by (simp add: dcells field_of_def)
  from c1 [THEN conjunct2, THEN conjunct2, THEN conjunct2, rule_format, OF s1]
  obtain m m' where m: "field_of (cells_of demo_notebook ! 1) ''metadata'' = Some (JObj m)"
    and m': "field_of (cells_of out ! (6 + 1)) ''metadata'' = Some (JObj m')"
    and mk: "map fst m' = map fst m"
    and mo: "\<forall>k. k \<noteq> ''language'' \<longrightarrow> map_of m' k = map_of m k"
    by (elim exE conjE)
  from m have meq: "m = [(''language'', JStr ''sql''), (''name'', JStr ''q'')]"
    by (simp add: dcells field_of_def)
  from m' have m7: "field_of (cells_of out ! 7) ''metadata'' = Some (JObj m')"
    by simp
  have mkeys: "map fst m' = [''language'', ''name'']"
    unfolding mk meq by simp
  have mname: "map_of m' ''name'' = Some (JStr ''q'')"
    using mo [rule_format, of "''name''"] unfolding meq by simp
  have r7: "\<exists>m'. field_of (cells_of out ! 7) ''metadata'' = Some (JObj m')
      \<and> map fst m' = [''language'', ''name''] \<and> map_of m' ''name'' = Some (JStr ''q'')"
    by (rule exI [of _ m']) (intro conjI m7 mkeys mname)
  from keys have r8: "keys_of out = [''metadata'', ''cells'', ''nbformat'']"
    by (simp add: demo_notebook_def keys_of_def)
  from top [of "''metadata''"]
  have r9: "field_of out ''metadata'' = Some (JObj [(''kernelspec'', JStr ''sf'')])"
    by (simp add: demo_notebook_def field_of_def)
  from top [of "''nbformat''"]
  have r10: "field_of out ''nbformat'' = Some (JNum 4)"
    by (simp add: demo_notebook_def field_of_def)
  show ?thesis
    by (intro conjI exI [of _ out]) (fact wf conv r1 r2 r3 r4 r5 r6 r7 r8 r9 r10)+
qed




text \<open>
  C9: when the converter is run on a document that it has returned, it returns a
  document, and in it every cell of its input stands unchanged, six places further on.
  A cell whose language is \<open>python\<close>, with or without the marker line, is left as it is by
  the loop.
\<close>

theorem convert_document_rerun:
  "(\<forall>out. convert_document uuid (nb :: 'n json) = Inr out \<longrightarrow>
       (\<exists>out2. convert_document uuid2 out = Inr out2))
   \<and> (\<forall>out out2. convert_document uuid nb = Inr out \<and> convert_document uuid2 out = Inr out2 \<longrightarrow>
          length (cells_of out2) = 6 + length (cells_of out)
          \<and> (\<forall>i<length (cells_of out). cells_of out2 ! (6 + i) = cells_of out ! i))
   \<and> (\<forall>c :: 'n json. language_of c = Some (JStr ''python'') \<longrightarrow> convert_cell c = Inr c)"
proof (intro conjI allI impI)
  fix out
  assume "convert_document uuid nb = Inr out"
  then show "\<exists>out2. convert_document uuid2 out = Inr out2"
    by (rule convert_document_fixed(2))
next
  fix out out2
  assume h: "convert_document uuid nb = Inr out \<and> convert_document uuid2 out = Inr out2"
  then have conv: "convert_document uuid nb = Inr out"
    and conv2: "convert_document uuid2 out = Inr out2"
    by simp_all
  show "length (cells_of out2) = 6 + length (cells_of out)"
    using conv2 by (rule convert_document_nth(1))
  fix i
  assume i: "i < length (cells_of out)"
  have "convert_cell (cells_of out ! i) = Inr (cells_of out2 ! (6 + i))"
    using conv2 i by (rule convert_document_nth(3))
  moreover have "convert_cell (cells_of out ! i) = Inr (cells_of out ! i)"
    using convert_document_fixed(1) [OF conv] i by (rule convert_cells_nth(2))
  ultimately show "cells_of out2 ! (6 + i) = cells_of out ! i"
    by simp
next
  fix c :: "'n json"
  assume "language_of c = Some (JStr ''python'')"
  then show "convert_cell c = Inr c"
    by (rule convert_cell_python)
qed

theorem convert_document_rerun_witness:
  "(\<exists>out out2. convert_document demo_uuid empty_notebook = Inr out
      \<and> convert_document demo_uuid out = Inr out2
      \<and> length (cells_of out) = 6
      \<and> length (cells_of out2) = 12
      \<and> cells_of out2 ! 11 = cells_of out ! 5)
   \<and> convert_cell
        (JObj [(''cell_type'', JStr ''code''),
               (''metadata'', JObj [(''language'', JStr ''python'')]),
               (''source'', JStr ''%%snowsql\<newline>SELECT 1;'')] :: int json)
     = Inr (JObj [(''cell_type'', JStr ''code''),
                  (''metadata'', JObj [(''language'', JStr ''python'')]),
                  (''source'', JStr ''%%snowsql\<newline>SELECT 1;'')])"
proof -
  note t = convert_document_rerun [of demo_uuid empty_notebook demo_uuid]
  let ?out = "JObj [(''cells'', JArr (new_cells_at_beginning demo_uuid))] :: int json"
  have conv: "convert_document demo_uuid empty_notebook = Inr ?out"
    by (simp add: empty_notebook_def convert_document_def convert_new_cells_at_beginning)
  have len: "length (cells_of ?out) = 6"
    by (simp add: cells_of_def field_of_def length_new_cells_at_beginning)
  have i: "5 < length (cells_of ?out)"
    by (simp add: len)
  from t [THEN conjunct1, rule_format, OF conv] obtain out2 where
    conv2: "convert_document demo_uuid ?out = Inr out2" ..
  from conv conv2 have h: "convert_document demo_uuid empty_notebook = Inr ?out
      \<and> convert_document demo_uuid ?out = Inr out2" ..
  note props = t [THEN conjunct2, THEN conjunct1, rule_format, OF h]
  from props [THEN conjunct1] len have len2: "length (cells_of out2) = 12"
    by simp
  from props [THEN conjunct2, rule_format, OF i] have same: "cells_of out2 ! 11 = cells_of ?out ! 5"
    by simp
  have py: "language_of
        (JObj [(''cell_type'', JStr ''code''),
               (''metadata'', JObj [(''language'', JStr ''python'')]),
               (''source'', JStr ''%%snowsql\<newline>SELECT 1;'')] :: int json)
      = Some (JStr ''python'')"
    by (simp add: language_of_def field_of_def)
  note fixed = t [THEN conjunct2, THEN conjunct2, rule_format, OF py]
  show ?thesis
    by (intro conjI exI [of _ ?out] exI [of _ out2]) (fact conv conv2 len len2 same fixed)+
qed

end
